theory Spec2Isabelle
  imports Main
begin

section \<open>Exceptions\<close>

text \<open>
  Every exception a modelled function can raise is a value of this type; a function that
  may raise returns \<open>error + 'a\<close>, with \<open>Inl\<close> for the exception.
\<close>

datatype error =
    Http404
  | IntegrityError
  | DoesNotExist
  | AttributeError
  | KeyError string
  | PermissionDenied string
  | AuthenticationFailed string
  | ValidationError "(string \<times> string) list"

section \<open>circuits: the tables behind the views\<close>

text \<open>
  Modelled from the spec: the models \<open>Circuit\<close> and \<open>CircuitTermination\<close>
  (circuits/models.py) are not among the source files. The views use a circuit's primary key
  and its two references \<open>termination_a\<close>, \<open>termination_z\<close>, and a
  termination's primary key, its circuit and its \<open>term_side\<close>; the remaining columns
  (site, provider network, description and whatever else the model declares) are the
  extension part of each record, so that a statement about a record scheme covers all of
  them.
\<close>

record circuit =
  circuit_pk :: nat
  termination_a_id :: "nat option"
  termination_z_id :: "nat option"

record circuit_termination =
  term_pk :: nat
  circuit_id :: nat
  term_side :: string

text \<open>A table is the list of its rows; the database holds the two tables.\<close>

record ('c, 't) database =
  circuits :: "'c circuit_scheme list"
  terminations :: "'t circuit_termination_scheme list"

text \<open>
  A statement of a view runs on the database and yields a value or an exception together
  with the database it leaves behind. An exception stops the statements after it; what was
  written before it stays written, unless a transaction takes it back.
\<close>

type_synonym ('s, 'a) stmt = "'s \<Rightarrow> (error + 'a) \<times> 's"

definition returns :: "'a \<Rightarrow> ('s, 'a) stmt" where
  "returns x s = (Inr x, s)"

definition raise :: "error \<Rightarrow> ('s, 'a) stmt" where
  "raise e s = (Inl e, s)"

definition and_then :: "('s, 'a) stmt \<Rightarrow> ('a \<Rightarrow> ('s, 'b) stmt) \<Rightarrow> ('s, 'b) stmt" where
  "and_then m f s = (case m s of (Inl e, s') \<Rightarrow> (Inl e, s') | (Inr x, s') \<Rightarrow> f x s')"

text \<open>
  \<open>with transaction.atomic():\<close> commits the block's writes when the block ends
  normally and rolls the database back to its state at entry when the block raises; the
  exception goes on to the caller.
\<close>

definition atomic :: "('s, 'a) stmt \<Rightarrow> ('s, 'a) stmt" where
  "atomic block s = (case block s of (Inl e, _) \<Rightarrow> (Inl e, s) | (Inr x, s') \<Rightarrow> (Inr x, s'))"

subsection \<open>The object-relational mapper\<close>

text \<open>\<open>get_object_or_404(self.queryset, pk=pk)\<close> on \<open>Circuit.objects.all()\<close>.\<close>

definition get_object_or_404 ::
  "nat \<Rightarrow> (('c, 't) database, 'c circuit_scheme) stmt" where
  "get_object_or_404 pk db =
     (case find (\<lambda>c. circuit_pk c = pk) (circuits db) of
        None \<Rightarrow> (Inl Http404, db)
      | Some c \<Rightarrow> (Inr c, db))"

text \<open>
  \<open>CircuitTermination.objects.filter(pk=k).first()\<close>: the row with that primary
  key, or \<open>None\<close>; no row has the key \<open>None\<close>.
\<close>

definition filter_pk_first ::
  "nat option \<Rightarrow> ('c, 't) database \<Rightarrow> 't circuit_termination_scheme option" where
  "filter_pk_first k db =
     (case k of
        None \<Rightarrow> None
      | Some i \<Rightarrow> find (\<lambda>t. term_pk t = i) (terminations db))"

text \<open>
  Reading the attribute \<open>circuit.termination_a\<close> (or \<open>termination_z\<close>)
  follows the foreign key: \<open>None\<close> for a null reference, the referenced row
  otherwise, and \<open>DoesNotExist\<close> when the reference dangles.
\<close>

definition related ::
  "nat option \<Rightarrow> (('c, 't) database, 't circuit_termination_scheme option) stmt" where
  "related k db =
     (case k of
        None \<Rightarrow> (Inr None, db)
      | Some i \<Rightarrow>
          (case find (\<lambda>t. term_pk t = i) (terminations db) of
             None \<Rightarrow> (Inl DoesNotExist, db)
           | Some t \<Rightarrow> (Inr (Some t), db)))"

text \<open>
  The constraint the view's comment names: no two rows of the termination table agree on
  (circuit, term_side). A save that would break it raises \<open>IntegrityError\<close> and
  writes nothing.
\<close>

definition violates_unique ::
  "'t circuit_termination_scheme \<Rightarrow> 't circuit_termination_scheme list \<Rightarrow> bool" where
  "violates_unique t rows =
     list_ex (\<lambda>r. term_pk r \<noteq> term_pk t \<and> circuit_id r = circuit_id t
                   \<and> term_side r = term_side t) rows"

text \<open>
  \<open>termination.save()\<close>: an UPDATE of the rows with the instance's primary key, an
  INSERT when there is none.
\<close>

definition termination_save ::
  "'t circuit_termination_scheme \<Rightarrow> (('c, 't) database, unit) stmt" where
  "termination_save t db =
     (if violates_unique t (terminations db) then (Inl IntegrityError, db)
      else if list_ex (\<lambda>r. term_pk r = term_pk t) (terminations db)
      then (Inr (), db\<lparr>terminations :=
              map (\<lambda>r. if term_pk r = term_pk t then t else r) (terminations db)\<rparr>)
      else (Inr (), db\<lparr>terminations := terminations db @ [t]\<rparr>))"

text \<open>\<open>circuit.save()\<close>, likewise; the view changes no constrained column of it.\<close>

definition circuit_save ::
  "'c circuit_scheme \<Rightarrow> (('c, 't) database, unit) stmt" where
  "circuit_save c db =
     (if list_ex (\<lambda>r. circuit_pk r = circuit_pk c) (circuits db)
      then (Inr (), db\<lparr>circuits :=
              map (\<lambda>r. if circuit_pk r = circuit_pk c then c else r) (circuits db)\<rparr>)
      else (Inr (), db\<lparr>circuits := circuits db @ [c]\<rparr>))"

text \<open>\<open>circuit.refresh_from_db()\<close> reloads the instance by its primary key.\<close>

definition refresh_from_db ::
  "'c circuit_scheme \<Rightarrow> (('c, 't) database, 'c circuit_scheme) stmt" where
  "refresh_from_db c db =
     (case find (\<lambda>r. circuit_pk r = circuit_pk c) (circuits db) of
        None \<Rightarrow> (Inl DoesNotExist, db)
      | Some r \<Rightarrow> (Inr r, db))"

subsection \<open>Responses\<close>

datatype level = ERROR | SUCCESS

text \<open>
  A message is its level, its text and the circuit the text is formatted with (by primary
  key). A response is a redirect to the circuit's page, carrying the messages queued on the
  request, or a rendered template with its context.
\<close>

type_synonym message = "level \<times> string \<times> nat"

record ('c, 't) template_context =
  ctx_circuit :: "'c circuit_scheme"
  ctx_termination_a :: "'t circuit_termination_scheme option"
  ctx_termination_z :: "'t circuit_termination_scheme option"
  ctx_form_bound :: bool
  ctx_panel_class :: string
  ctx_button_class :: string

datatype ('c, 't) response =
    Redirect "message list" nat
  | Render string "('c, 't) template_context"

subsection \<open>CircuitSwapTerminations\<close>

text \<open>The context both handlers render the confirmation page with.\<close>

definition render_swap ::
  "'c circuit_scheme \<Rightarrow> bool \<Rightarrow> string \<Rightarrow> (('c, 't) database, ('c, 't) response) stmt" where
  "render_swap circuit bound panel =
     and_then (related (termination_a_id circuit)) (\<lambda>termination_a.
     and_then (related (termination_z_id circuit)) (\<lambda>termination_z.
     returns (Render ''circuits/circuit_terminations_swap.html''
       \<lparr>ctx_circuit = circuit, ctx_termination_a = termination_a,
        ctx_termination_z = termination_z, ctx_form_bound = bound,
        ctx_panel_class = panel, ctx_button_class = ''primary''\<rparr>)))"

text \<open>
  \<open>CircuitSwapTerminations.get\<close>. The test
  \<open>not circuit.termination_a and not circuit.termination_z\<close> reads
  \<open>termination_z\<close> only when \<open>termination_a\<close> is \<open>None\<close>.
\<close>

definition get :: "nat \<Rightarrow> (('c, 't) database, ('c, 't) response) stmt" where
  "get pk =
     and_then (get_object_or_404 pk) (\<lambda>circuit.
     and_then (related (termination_a_id circuit)) (\<lambda>termination_a.
     and_then (if termination_a = None then related (termination_z_id circuit)
               else returns None) (\<lambda>termination_z.
       if termination_a = None \<and> termination_z = None
       then returns (Redirect
              [(ERROR, ''No terminations have been defined for circuit {}.'', circuit_pk circuit)]
              (circuit_pk circuit))
       else render_swap circuit False ''light'')))"

text \<open>The block under \<open>with transaction.atomic():\<close> of the two-termination branch.\<close>

definition swap_block ::
  "'c circuit_scheme \<Rightarrow> 't circuit_termination_scheme \<Rightarrow> 't circuit_termination_scheme
     \<Rightarrow> (('c, 't) database, unit) stmt" where
  "swap_block circuit termination_a termination_z =
     (let termination_a = termination_a\<lparr>term_side := ''_''\<rparr> in
      and_then (termination_save termination_a) (\<lambda>_.
     (let termination_z = termination_z\<lparr>term_side := ''A''\<rparr> in
      and_then (termination_save termination_z) (\<lambda>_.
     (let termination_a = termination_a\<lparr>term_side := ''Z''\<rparr> in
      and_then (termination_save termination_a) (\<lambda>_.
      and_then (refresh_from_db circuit) (\<lambda>circuit.
      circuit_save (circuit\<lparr>termination_a_id := Some (term_pk termination_z),
                            termination_z_id := Some (term_pk termination_a)\<rparr>))))))))"

text \<open>
  \<open>CircuitSwapTerminations.post\<close>. \<open>form_is_valid\<close> is the verdict of
  \<open>ConfirmationForm(request.POST).is_valid()\<close>; the form class is not among the
  source files. In the last branch \<open>termination_z\<close> may be \<open>None\<close>, and setting an
  attribute of \<open>None\<close> raises \<open>AttributeError\<close>.
\<close>

definition post :: "nat \<Rightarrow> bool \<Rightarrow> (('c, 't) database, ('c, 't) response) stmt" where
  "post pk form_is_valid =
     and_then (get_object_or_404 pk) (\<lambda>circuit.
       if form_is_valid then
         (\<lambda>db.
           (let termination_a = filter_pk_first (termination_a_id circuit) db;
                termination_z = filter_pk_first (termination_z_id circuit) db
            in and_then
                (case (termination_a, termination_z) of
                   (Some ta, Some tz) \<Rightarrow> atomic (swap_block circuit ta tz)
                 | (Some ta, None) \<Rightarrow>
                     and_then (termination_save (ta\<lparr>term_side := ''Z''\<rparr>)) (\<lambda>_.
                     and_then (refresh_from_db circuit) (\<lambda>circuit.
                     circuit_save (circuit\<lparr>termination_a_id := None\<rparr>)))
                 | (None, Some tz) \<Rightarrow>
                     and_then (termination_save (tz\<lparr>term_side := ''A''\<rparr>)) (\<lambda>_.
                     and_then (refresh_from_db circuit) (\<lambda>circuit.
                     circuit_save (circuit\<lparr>termination_z_id := None\<rparr>)))
                 | (None, None) \<Rightarrow> raise AttributeError)
                (\<lambda>_. returns (Redirect
                   [(SUCCESS, ''Swapped terminations for circuit {}.'', circuit_pk circuit)]
                   (circuit_pk circuit)))
                db))
       else render_swap circuit True ''default'')"

subsection \<open>Well-formed databases\<close>

text \<open>
  Primary keys identify rows; the (circuit, term_side) constraint holds of a table; the
  sides a termination can carry are \<open>A\<close> and \<open>Z\<close>.
\<close>

definition primary_keys :: "('c, 't) database \<Rightarrow> bool" where
  "primary_keys db \<longleftrightarrow>
     distinct (map circuit_pk (circuits db)) \<and> distinct (map term_pk (terminations db))"

definition unique_term_side :: "'t circuit_termination_scheme list \<Rightarrow> bool" where
  "unique_term_side rows \<longleftrightarrow>
     (\<forall>r \<in> set rows. \<forall>t \<in> set rows.
        circuit_id r = circuit_id t \<and> term_side r = term_side t \<longrightarrow> term_pk r = term_pk t)"

definition sides_valid :: "'t circuit_termination_scheme list \<Rightarrow> bool" where
  "sides_valid rows \<longleftrightarrow> (\<forall>t \<in> set rows. term_side t = ''A'' \<or> term_side t = ''Z'')"

text \<open>What the two-termination block leaves behind when all of it runs.\<close>

definition swapped ::
  "'c circuit_scheme \<Rightarrow> 't circuit_termination_scheme \<Rightarrow> 't circuit_termination_scheme
     \<Rightarrow> ('c, 't) database \<Rightarrow> ('c, 't) database" where
  "swapped c ta tz db =
     db\<lparr>terminations :=
          map (\<lambda>r. if term_pk r = term_pk ta then ta\<lparr>term_side := ''Z''\<rparr>
                   else if term_pk r = term_pk tz then tz\<lparr>term_side := ''A''\<rparr> else r)
            (terminations db),
        circuits :=
          map (\<lambda>r. if circuit_pk r = circuit_pk c
                   then c\<lparr>termination_a_id := Some (term_pk tz),
                          termination_z_id := Some (term_pk ta)\<rparr> else r)
            (circuits db)\<rparr>"

subsection \<open>A concrete database\<close>

text \<open>
  Rows with some of the further columns of the two models, and a database of four
  circuits: one with both terminations, one with each single termination, one with none.
\<close>

record circuit_row = circuit +
  cid :: string
  provider :: nat

record termination_row = circuit_termination +
  site :: "nat option"
  provider_network :: "nat option"
  description :: string

definition example_db :: "(unit circuit_row_ext, unit termination_row_ext) database" where
  "example_db =
     \<lparr>circuits =
        [\<lparr>circuit_pk = 1, termination_a_id = Some 10, termination_z_id = Some 11,
          cid = ''C-1'', provider = 7\<rparr>,
         \<lparr>circuit_pk = 2, termination_a_id = Some 20, termination_z_id = None,
          cid = ''C-2'', provider = 7\<rparr>,
         \<lparr>circuit_pk = 3, termination_a_id = None, termination_z_id = Some 31,
          cid = ''C-3'', provider = 8\<rparr>,
         \<lparr>circuit_pk = 4, termination_a_id = None, termination_z_id = None,
          cid = ''C-4'', provider = 8\<rparr>],
      terminations =
        [\<lparr>term_pk = 10, circuit_id = 1, term_side = ''A'',
          site = Some 100, provider_network = None, description = ''left''\<rparr>,
         \<lparr>term_pk = 11, circuit_id = 1, term_side = ''Z'',
          site = None, provider_network = Some 5, description = ''right''\<rparr>,
         \<lparr>term_pk = 20, circuit_id = 2, term_side = ''A'',
          site = Some 101, provider_network = None, description = ''only a''\<rparr>,
         \<lparr>term_pk = 31, circuit_id = 3, term_side = ''Z'',
          site = Some 102, provider_network = None, description = ''only z''\<rparr>]\<rparr>"

text \<open>The same database after the terminations of circuit 1 have been swapped.\<close>

definition example_db_swapped :: "(unit circuit_row_ext, unit termination_row_ext) database" where
  "example_db_swapped =
     \<lparr>circuits =
        [\<lparr>circuit_pk = 1, termination_a_id = Some 11, termination_z_id = Some 10,
          cid = ''C-1'', provider = 7\<rparr>,
         \<lparr>circuit_pk = 2, termination_a_id = Some 20, termination_z_id = None,
          cid = ''C-2'', provider = 7\<rparr>,
         \<lparr>circuit_pk = 3, termination_a_id = None, termination_z_id = Some 31,
          cid = ''C-3'', provider = 8\<rparr>,
         \<lparr>circuit_pk = 4, termination_a_id = None, termination_z_id = None,
          cid = ''C-4'', provider = 8\<rparr>],
      terminations =
        [\<lparr>term_pk = 10, circuit_id = 1, term_side = ''Z'',
          site = Some 100, provider_network = None, description = ''left''\<rparr>,
         \<lparr>term_pk = 11, circuit_id = 1, term_side = ''A'',
          site = None, provider_network = Some 5, description = ''right''\<rparr>,
         \<lparr>term_pk = 20, circuit_id = 2, term_side = ''A'',
          site = Some 101, provider_network = None, description = ''only a''\<rparr>,
         \<lparr>term_pk = 31, circuit_id = 3, term_side = ''Z'',
          site = Some 102, provider_network = None, description = ''only z''\<rparr>]\<rparr>"

text \<open>
  A database in which the reference termination_z of circuit 1 leads to a termination of
  circuit 5, which already has an A termination: relabelling it \<open>A\<close> breaks the
  constraint.
\<close>

definition example_db_conflict :: "(unit circuit_row_ext, unit termination_row_ext) database" where
  "example_db_conflict =
     \<lparr>circuits =
        [\<lparr>circuit_pk = 1, termination_a_id = Some 10, termination_z_id = Some 11,
          cid = ''C-1'', provider = 7\<rparr>,
         \<lparr>circuit_pk = 5, termination_a_id = Some 50, termination_z_id = None,
          cid = ''C-5'', provider = 7\<rparr>],
      terminations =
        [\<lparr>term_pk = 10, circuit_id = 1, term_side = ''A'',
          site = Some 100, provider_network = None, description = ''left''\<rparr>,
         \<lparr>term_pk = 11, circuit_id = 5, term_side = ''Z'',
          site = None, provider_network = Some 5, description = ''of circuit 5''\<rparr>,
         \<lparr>term_pk = 50, circuit_id = 5, term_side = ''A'',
          site = Some 101, provider_network = None, description = ''a of 5''\<rparr>]\<rparr>"

text \<open>
  A table without the columns the swap writes: the terminations without term_side, the
  circuits without their two references.
\<close>

definition erase_term_side ::
  "'t circuit_termination_scheme list \<Rightarrow> 't circuit_termination_scheme list" where
  "erase_term_side rows = map (\<lambda>t. t\<lparr>term_side := []\<rparr>) rows"

definition erase_references :: "'c circuit_scheme list \<Rightarrow> 'c circuit_scheme list" where
  "erase_references rows = map (\<lambda>c. c\<lparr>termination_a_id := None, termination_z_id := None\<rparr>) rows"

section \<open>circuits: bulk import\<close>

text \<open>
  \<open>CircuitBulkImportView.prep_related_object_data(self, parent, data)\<close>:
  \<open>data.update({'circuit': parent})\<close>, then \<open>return data\<close>. A dict is a map
  from keys to Python values; \<open>'v\<close> is the type of the values, the parent circuit
  among them.
\<close>

definition prep_related_object_data :: "'v \<Rightarrow> (string \<rightharpoonup> 'v) \<Rightarrow> (string \<rightharpoonup> 'v)" where
  "prep_related_object_data parent data = data(''circuit'' \<mapsto> parent)"

section \<open>users: the token serializers\<close>

subsection \<open>Values\<close>

text \<open>
  A user is a saved model instance; two instances of one model are equal when their
  primary keys are.
\<close>

record user =
  user_pk :: nat
  user_name :: string

text \<open>
  What a request body can hold (JSON; floating-point numbers are left out), and what
  validated data can hold.
\<close>

datatype json =
    JNull
  | JBool bool
  | JInt int
  | JStr string
  | JList "json list"
  | JObject "(string \<times> json) list"

datatype pyval =
    PyNone
  | PyBool bool
  | PyInt int
  | PyStr string
  | PyUser user
  | PyList "pyval list"

text \<open>The request as the serializers use it: \<open>request.user\<close>.\<close>

record request =
  request_user :: user

text \<open>Truth value of a Python object in a condition.\<close>

fun truthy :: "pyval \<Rightarrow> bool" where
  "truthy PyNone = False"
| "truthy (PyBool b) = b"
| "truthy (PyInt i) = (i \<noteq> 0)"
| "truthy (PyStr s) = (s \<noteq> [])"
| "truthy (PyUser u) = True"
| "truthy (PyList xs) = (xs \<noteq> [])"

text \<open>
  \<open>token_user != request.user\<close>: model instances compare by primary key; anything
  that is not a user differs from a user.
\<close>

fun differs_from :: "pyval \<Rightarrow> user \<Rightarrow> bool" where
  "differs_from (PyUser u) v = (user_pk u \<noteq> user_pk v)"
| "differs_from _ v = True"

subsection \<open>TokenSerializer.validate\<close>

text \<open>
  \<open>has_perm\<close> is \<open>user.has_perm\<close> of the authentication backend and
  \<open>super_validate\<close> the parent class's \<open>validate\<close>; neither is among the
  source files. \<open>request\<close> is \<open>self.context.get('request')\<close>, \<open>None\<close> when the
  context has none; \<open>request.user\<close> is read only once \<open>token_user\<close> is known to be
  true, and reading it from \<open>None\<close> raises \<open>AttributeError\<close>.
\<close>

definition TokenSerializer_validate ::
  "(user \<Rightarrow> string \<Rightarrow> bool) \<Rightarrow> ((string \<rightharpoonup> pyval) \<Rightarrow> error + (string \<rightharpoonup> pyval))
     \<Rightarrow> request option \<Rightarrow> (string \<rightharpoonup> pyval) \<Rightarrow> error + (string \<rightharpoonup> pyval)" where
  "TokenSerializer_validate has_perm super_validate request data =
     (let token_user = (case data ''user'' of None \<Rightarrow> PyNone | Some v \<Rightarrow> v) in
      if truthy token_user then
        (case request of
           None \<Rightarrow> Inl AttributeError
         | Some req \<Rightarrow>
             if differs_from token_user (request_user req)
                \<and> \<not> has_perm (request_user req) ''users.grant_token''
             then Inl (PermissionDenied
                    ''This user does not have permission to create tokens for other users.'')
             else super_validate data)
      else super_validate data)"

subsection \<open>TokenProvisionSerializer.validate\<close>

text \<open>\<open>data.pop(key)\<close>: the value and the dict without the key, or \<open>KeyError\<close>.\<close>

definition pop :: "string \<Rightarrow> (string \<rightharpoonup> 'v) \<Rightarrow> error + ('v \<times> (string \<rightharpoonup> 'v))" where
  "pop k data = (case data k of None \<Rightarrow> Inl (KeyError k) | Some v \<Rightarrow> Inr (v, data(k := None)))"

text \<open>
  \<open>authenticate\<close> is \<open>django.contrib.auth.authenticate\<close>: the user the credentials
  belong to, or \<open>None\<close>.
\<close>

definition TokenProvisionSerializer_validate ::
  "(request option \<Rightarrow> pyval \<Rightarrow> pyval \<Rightarrow> user option) \<Rightarrow> request option
     \<Rightarrow> (string \<rightharpoonup> pyval) \<Rightarrow> error + (string \<rightharpoonup> pyval)" where
  "TokenProvisionSerializer_validate authenticate request data =
     (case pop ''username'' data of
        Inl e \<Rightarrow> Inl e
      | Inr (username, data) \<Rightarrow>
          (case pop ''password'' data of
             Inl e \<Rightarrow> Inl e
           | Inr (password, data) \<Rightarrow>
               (case authenticate request username password of
                  None \<Rightarrow> Inl (AuthenticationFailed ''Invalid username/password'')
                | Some user \<Rightarrow> Inr (data(''user'' \<mapsto> PyUser user)))))"

subsection \<open>TokenSerializer.to_internal_value and the key field\<close>

text \<open>
  The keyword arguments of a \<open>serializers.CharField\<close>. \<open>key_field\<close> is the
  declaration of \<open>TokenSerializer.key\<close>; \<open>allow_null\<close> and
  \<open>trim_whitespace\<close> have the framework's defaults.
\<close>

record char_field =
  min_length :: "nat option"
  max_length :: "nat option"
  allow_blank :: bool
  required :: bool
  allow_null :: bool
  trim_whitespace :: bool

definition key_field :: char_field where
  "key_field = \<lparr>min_length = Some 40, max_length = Some 40, allow_blank = True,
                 required = False, allow_null = False, trim_whitespace = True\<rparr>"

text \<open>\<open>str.strip()\<close>, on the whitespace characters below code point 256.\<close>

definition is_space :: "char \<Rightarrow> bool" where
  "is_space c = ((of_char c :: nat) \<in> {9, 10, 11, 12, 13, 28, 29, 30, 31, 32, 133, 160})"

definition strip :: "string \<Rightarrow> string" where
  "strip s = rev (dropWhile is_space (rev (dropWhile is_space s)))"

text \<open>\<open>str(n)\<close> of an integer: its decimal digits, with a sign when negative.\<close>

fun str_nat :: "nat \<Rightarrow> string" where
  "str_nat n = (if n < 10 then [char_of (48 + n)] else str_nat (n div 10) @ [char_of (48 + n mod 10)])"

definition str_int :: "int \<Rightarrow> string" where
  "str_int i = (if i < 0 then CHR ''-'' # str_nat (nat (- i)) else str_nat (nat i))"

text \<open>
  \<open>str(data).strip() == ''\<close>: only a string can be blank; \<open>str\<close> of \<open>None\<close>, of
  a boolean, of a number, of a list and of a dict has a character that is not whitespace.
\<close>

fun str_is_blank :: "json \<Rightarrow> bool" where
  "str_is_blank (JStr s) = (strip s = [])"
| "str_is_blank _ = False"

text \<open>
  \<open>CharField.run_validation\<close> of the REST framework, with the error code it fails
  with. A blank input is answered before anything else: refused unless
  \<open>allow_blank\<close>, and otherwise returned as \<open>''\<close> without running the validators.
  Then \<open>None\<close> is refused unless \<open>allow_null\<close>; a boolean, a list and a dict are
  invalid; a string or a number is converted with \<open>str\<close> and trimmed; and the length
  validators run on the result.
\<close>

definition run_validation :: "char_field \<Rightarrow> json \<Rightarrow> (string \<times> string) list + pyval" where
  "run_validation field data =
     (if data = JStr [] \<or> (trim_whitespace field \<and> str_is_blank data) then
        (if \<not> allow_blank field then Inl [(''key'', ''blank'')] else Inr (PyStr []))
      else
        (case data of
           JNull \<Rightarrow> (if allow_null field then Inr PyNone else Inl [(''key'', ''null'')])
         | JBool b \<Rightarrow> Inl [(''key'', ''invalid'')]
         | JList xs \<Rightarrow> Inl [(''key'', ''invalid'')]
         | JObject kvs \<Rightarrow> Inl [(''key'', ''invalid'')]
         | _ \<Rightarrow>
            (let value = (case data of JInt i \<Rightarrow> str_int i | JStr s \<Rightarrow> s | _ \<Rightarrow> []);
                 value = (if trim_whitespace field then strip value else value);
                 errors =
                   (case max_length field of
                      None \<Rightarrow> []
                    | Some n \<Rightarrow> if length value > n then [(''key'', ''max_length'')] else [])
                   @ (case min_length field of
                      None \<Rightarrow> []
                    | Some n \<Rightarrow> if length value < n then [(''key'', ''min_length'')] else [])
             in if errors = [] then Inr (PyStr value) else Inl errors)))"

text \<open>
  \<open>Serializer.to_internal_value\<close> of the REST framework, for the key field;
  \<open>other_fields\<close> stands for the remaining fields of the serializer and yields their
  errors and their validated values. A field that is absent from the data is an error
  when required and is skipped otherwise. All errors are raised together as one
  \<open>ValidationError\<close>.
\<close>

definition Serializer_to_internal_value ::
  "((string \<rightharpoonup> json) \<Rightarrow> (string \<times> string) list \<times> (string \<rightharpoonup> pyval))
     \<Rightarrow> (string \<rightharpoonup> json) \<Rightarrow> error + (string \<rightharpoonup> pyval)" where
  "Serializer_to_internal_value other_fields data =
     (let (errors, ret) = other_fields data in
      case data ''key'' of
        None \<Rightarrow>
          (if required key_field then Inl (ValidationError (errors @ [(''key'', ''required'')]))
           else if errors = [] then Inr ret else Inl (ValidationError errors))
      | Some v \<Rightarrow>
          (case run_validation key_field v of
             Inl es \<Rightarrow> Inl (ValidationError (errors @ es))
           | Inr value \<Rightarrow>
               if errors = [] then Inr (ret(''key'' \<mapsto> value)) else Inl (ValidationError errors)))"

text \<open>
  \<open>TokenSerializer.to_internal_value\<close>. \<open>generate_key\<close> is the string
  \<open>Token.generate_key()\<close> returns at this call; the method is not among the source files.
\<close>

definition TokenSerializer_to_internal_value ::
  "string \<Rightarrow> ((string \<rightharpoonup> json) \<Rightarrow> (string \<times> string) list \<times> (string \<rightharpoonup> pyval))
     \<Rightarrow> (string \<rightharpoonup> json) \<Rightarrow> error + (string \<rightharpoonup> pyval)" where
  "TokenSerializer_to_internal_value generate_key other_fields data =
     (let data = (if data ''key'' = None then data(''key'' \<mapsto> JStr generate_key) else data)
      in Serializer_to_internal_value other_fields data)"

text \<open>A serializer with no other field in error and no other value.\<close>

definition no_other_fields ::
  "(string \<rightharpoonup> json) \<Rightarrow> (string \<times> string) list \<times> (string \<rightharpoonup> pyval)" where
  "no_other_fields data = ([], Map.empty)"

subsection \<open>Concrete users, permissions and credentials\<close>

text \<open>
  Two users, of whom only the first may grant tokens; a parent validator that accepts
  everything; credentials that only \<open>alice\<close> / \<open>secret\<close> satisfy; and a key of
  forty characters.
\<close>

definition alice :: user where
  "alice = \<lparr>user_pk = 1, user_name = ''alice''\<rparr>"

definition bob :: user where
  "bob = \<lparr>user_pk = 2, user_name = ''bob''\<rparr>"

definition example_has_perm :: "user \<Rightarrow> string \<Rightarrow> bool" where
  "example_has_perm u perm = (user_pk u = 1 \<and> perm = ''users.grant_token'')"

definition parent_accepts :: "(string \<rightharpoonup> pyval) \<Rightarrow> error + (string \<rightharpoonup> pyval)" where
  "parent_accepts data = Inr data"

definition example_authenticate :: "request option \<Rightarrow> pyval \<Rightarrow> pyval \<Rightarrow> user option" where
  "example_authenticate request u p =
     (if u = PyStr ''alice'' \<and> p = PyStr ''secret'' then Some alice else None)"

definition example_key :: string where
  "example_key = ''0123456789abcdef0123456789abcdef01234567''"

section \<open>Properties of the circuit views\<close>

subsection \<open>Tables\<close>

lemma find_key_Some: "find (\<lambda>r. key r = k) rows = Some t \<Longrightarrow> key t = k \<and> t \<in> set rows"
  by (induction rows) (auto split: if_splits)

lemma find_key_list_ex: "find (\<lambda>r. key r = k) rows = Some t \<Longrightarrow> list_ex (\<lambda>r. key r = k) rows"
  by (induction rows) (auto split: if_splits)

lemma list_ex_replace:
  "key v = k' \<Longrightarrow>
   list_ex (\<lambda>r. key r = k) (map (\<lambda>r. if key r = k' then v else r) rows)
     = list_ex (\<lambda>r. key r = k) rows"
  by (induction rows) auto

lemma find_replace:
  "key v = k' \<Longrightarrow>
   find (\<lambda>r. key r = k) (map (\<lambda>r. if key r = k' then v else r) rows)
     = (if k = k' then (if list_ex (\<lambda>r. key r = k') rows then Some v else None)
        else find (\<lambda>r. key r = k) rows)"
  by (induction rows) auto

lemma find_distinct_all:
  "distinct (map key rows) \<Longrightarrow> find (\<lambda>r. key r = k) rows = Some t \<Longrightarrow>
   r \<in> set rows \<Longrightarrow> key r = k \<Longrightarrow> r = t"
  by (induction rows) (auto split: if_splits dest: find_key_Some simp: image_iff)

lemma termination_save_existing:
  "find (\<lambda>r. term_pk r = k) (terminations db) = Some t0 \<Longrightarrow> term_pk t = k \<Longrightarrow>
   termination_save t db =
     (if violates_unique t (terminations db) then (Inl IntegrityError, db)
      else (Inr (), db\<lparr>terminations :=
              map (\<lambda>r. if term_pk r = k then t else r) (terminations db)\<rparr>))"
  using find_key_list_ex[of term_pk k "terminations db" t0]
  by (auto simp: termination_save_def)

lemma circuit_save_existing:
  "find (\<lambda>r. circuit_pk r = k) (circuits db) = Some c0 \<Longrightarrow> circuit_pk c = k \<Longrightarrow>
   circuit_save c db =
     (Inr (), db\<lparr>circuits := map (\<lambda>r. if circuit_pk r = k then c else r) (circuits db)\<rparr>)"
  using find_key_list_ex[of circuit_pk k "circuits db" c0]
  by (auto simp: circuit_save_def)

lemma swap_block_cases:
  assumes c: "find (\<lambda>r. circuit_pk r = pk) (circuits db) = Some c"
    and ta: "find (\<lambda>r. term_pk r = a) (terminations db) = Some ta"
    and tz: "find (\<lambda>r. term_pk r = z) (terminations db) = Some tz"
  shows "(\<exists>db'. swap_block c ta tz db = (Inl IntegrityError, db'))
       \<or> swap_block c ta tz db = (Inr (), swapped c ta tz db)"
proof -
  have pk: "circuit_pk c = pk" and a: "term_pk ta = a" and z: "term_pk tz = z"
    using c ta tz by (auto dest: find_key_Some)
  define t1 where "t1 = ta\<lparr>term_side := ''_''\<rparr>"
  define t2 where "t2 = tz\<lparr>term_side := ''A''\<rparr>"
  define t3 where "t3 = t1\<lparr>term_side := ''Z''\<rparr>"
  define db1 where
    "db1 = db\<lparr>terminations := map (\<lambda>r. if term_pk r = a then t1 else r) (terminations db)\<rparr>"
  define db2 where
    "db2 = db1\<lparr>terminations := map (\<lambda>r. if term_pk r = z then t2 else r) (terminations db1)\<rparr>"
  define db3 where
    "db3 = db2\<lparr>terminations := map (\<lambda>r. if term_pk r = a then t3 else r) (terminations db2)\<rparr>"
  have k1: "term_pk t1 = a" and k2: "term_pk t2 = z" and k3: "term_pk t3 = a"
    by (simp_all add: t1_def t2_def t3_def a z)
  have T1: "terminations db1 = map (\<lambda>r. if term_pk r = a then t1 else r) (terminations db)"
    by (simp add: db1_def)
  have T2: "terminations db2 = map (\<lambda>r. if term_pk r = z then t2 else r) (terminations db1)"
    by (simp add: db2_def)
  have s1: "termination_save t1 db =
      (if violates_unique t1 (terminations db) then (Inl IntegrityError, db) else (Inr (), db1))"
    unfolding db1_def by (rule termination_save_existing[OF ta k1])
  have "list_ex (\<lambda>r. term_pk r = z) (terminations db1)"
    using find_key_list_ex[OF tz] by (simp only: T1 list_ex_replace[of term_pk t1 a, OF k1])
  then obtain u where u: "find (\<lambda>r. term_pk r = z) (terminations db1) = Some u"
    by (cases "find (\<lambda>r. term_pk r = z) (terminations db1)")
       (auto simp: find_None_iff list_ex_iff)
  have s2: "termination_save t2 db1 =
      (if violates_unique t2 (terminations db1) then (Inl IntegrityError, db1) else (Inr (), db2))"
    unfolding db2_def by (rule termination_save_existing[OF u k2])
  have "list_ex (\<lambda>r. term_pk r = a) (terminations db2)"
    using find_key_list_ex[OF ta]
    by (simp only: T2 T1 list_ex_replace[of term_pk t1 a, OF k1]
        list_ex_replace[of term_pk t2 z, OF k2])
  then obtain v where v: "find (\<lambda>r. term_pk r = a) (terminations db2) = Some v"
    by (cases "find (\<lambda>r. term_pk r = a) (terminations db2)")
       (auto simp: find_None_iff list_ex_iff)
  have s3: "termination_save t3 db2 =
      (if violates_unique t3 (terminations db2) then (Inl IntegrityError, db2) else (Inr (), db3))"
    unfolding db3_def by (rule termination_save_existing[OF v k3])
  have c3: "find (\<lambda>r. circuit_pk r = circuit_pk c) (circuits db3) = Some c"
    using c by (simp add: db3_def db2_def db1_def pk)
  have s4: "refresh_from_db c db3 = (Inr c, db3)"
    by (simp add: refresh_from_db_def c3)
  have s5: "circuit_save (c\<lparr>termination_a_id := Some z, termination_z_id := Some a\<rparr>) db3 =
      (Inr (), db3\<lparr>circuits := map (\<lambda>r. if circuit_pk r = pk
         then c\<lparr>termination_a_id := Some z, termination_z_id := Some a\<rparr> else r) (circuits db3)\<rparr>)"
    using c3 by (intro circuit_save_existing[where ?c0.0 = c]) (simp_all add: pk)
  have fin: "db3\<lparr>circuits := map (\<lambda>r. if circuit_pk r = pk
         then c\<lparr>termination_a_id := Some z, termination_z_id := Some a\<rparr> else r) (circuits db3)\<rparr>
       = swapped c ta tz db"
    by (auto simp: swapped_def db3_def db2_def db1_def t1_def t2_def t3_def a z pk)
  have blk: "swap_block c ta tz db =
     and_then (termination_save t1) (\<lambda>_.
     and_then (termination_save t2) (\<lambda>_.
     and_then (termination_save t3) (\<lambda>_.
     and_then (refresh_from_db c) (\<lambda>circuit.
     circuit_save (circuit\<lparr>termination_a_id := Some z, termination_z_id := Some a\<rparr>))))) db"
    by (simp add: swap_block_def Let_def t1_def t2_def t3_def a z)
  show ?thesis
    unfolding blk using s1 s2 s3 s4 s5 fin
    by (auto simp: and_then_def)
qed


lemma find_map_keep:
  "(\<And>r. key (f r) = key r) \<Longrightarrow>
   find (\<lambda>r. key r = k) (map f rows) = map_option f (find (\<lambda>r. key r = k) rows)"
  by (induction rows) auto

lemma post_both:
  assumes "find (\<lambda>r. circuit_pk r = pk) (circuits db) = Some c"
    and "termination_a_id c = Some a" and "termination_z_id c = Some z"
    and "find (\<lambda>r. term_pk r = a) (terminations db) = Some ta"
    and "find (\<lambda>r. term_pk r = z) (terminations db) = Some tz"
  shows "post pk True db =
     (case swap_block c ta tz db of
        (Inl e, _) \<Rightarrow> (Inl e, db)
      | (Inr _, db') \<Rightarrow>
          (Inr (Redirect [(SUCCESS, ''Swapped terminations for circuit {}.'', pk)] pk), db'))"
proof -
  have "circuit_pk c = pk" using assms(1) by (auto dest: find_key_Some)
  then show ?thesis using assms
    by (simp add: post_def and_then_def get_object_or_404_def filter_pk_first_def atomic_def
        returns_def split: prod.splits sum.splits)
qed

lemma post_both_cases:
  assumes "find (\<lambda>r. circuit_pk r = pk) (circuits db) = Some c"
    and "termination_a_id c = Some a" and "termination_z_id c = Some z"
    and "find (\<lambda>r. term_pk r = a) (terminations db) = Some ta"
    and "find (\<lambda>r. term_pk r = z) (terminations db) = Some tz"
  shows "post pk True db = (Inl IntegrityError, db)
       \<or> post pk True db =
           (Inr (Redirect [(SUCCESS, ''Swapped terminations for circuit {}.'', pk)] pk),
            swapped c ta tz db)"
  using swap_block_cases[OF assms(1,4,5)] unfolding post_both[OF assms]
  by auto

lemma post_a_only:
  assumes c: "find (\<lambda>r. circuit_pk r = pk) (circuits db) = Some c"
    and a: "termination_a_id c = Some a"
    and ta: "find (\<lambda>r. term_pk r = a) (terminations db) = Some ta"
    and z: "filter_pk_first (termination_z_id c) db = None"
  shows "post pk True db =
     (if violates_unique (ta\<lparr>term_side := ''Z''\<rparr>) (terminations db)
      then (Inl IntegrityError, db)
      else (Inr (Redirect [(SUCCESS, ''Swapped terminations for circuit {}.'', pk)] pk),
            db\<lparr>terminations :=
                 map (\<lambda>r. if term_pk r = a then ta\<lparr>term_side := ''Z''\<rparr> else r) (terminations db),
               circuits :=
                 map (\<lambda>r. if circuit_pk r = pk then c\<lparr>termination_a_id := None\<rparr> else r)
                   (circuits db)\<rparr>))"
proof -
  have pk: "circuit_pk c = pk" and k: "term_pk ta = a"
    using c ta by (auto dest: find_key_Some)
  have s1: "termination_save (ta\<lparr>term_side := ''Z''\<rparr>) db =
     (if violates_unique (ta\<lparr>term_side := ''Z''\<rparr>) (terminations db) then (Inl IntegrityError, db)
      else (Inr (), db\<lparr>terminations :=
              map (\<lambda>r. if term_pk r = a then ta\<lparr>term_side := ''Z''\<rparr> else r) (terminations db)\<rparr>))"
    by (rule termination_save_existing[OF ta]) (simp add: k)
  have s3: "\<And>T. circuit_save (c\<lparr>termination_a_id := None\<rparr>) (db\<lparr>terminations := T\<rparr>) =
      (Inr (), db\<lparr>terminations := T\<rparr>\<lparr>circuits := map (\<lambda>r. if circuit_pk r = pk
         then c\<lparr>termination_a_id := None\<rparr> else r) (circuits (db\<lparr>terminations := T\<rparr>))\<rparr>)"
    using c by (intro circuit_save_existing[where ?c0.0 = c]) (simp_all add: pk)
  show ?thesis
    using c a ta z s1 s3
    by (simp add: post_def and_then_def get_object_or_404_def filter_pk_first_def
        returns_def refresh_from_db_def pk)
qed

lemma post_z_only:
  assumes c: "find (\<lambda>r. circuit_pk r = pk) (circuits db) = Some c"
    and a: "filter_pk_first (termination_a_id c) db = None"
    and z: "termination_z_id c = Some z"
    and tz: "find (\<lambda>r. term_pk r = z) (terminations db) = Some tz"
  shows "post pk True db =
     (if violates_unique (tz\<lparr>term_side := ''A''\<rparr>) (terminations db)
      then (Inl IntegrityError, db)
      else (Inr (Redirect [(SUCCESS, ''Swapped terminations for circuit {}.'', pk)] pk),
            db\<lparr>terminations :=
                 map (\<lambda>r. if term_pk r = z then tz\<lparr>term_side := ''A''\<rparr> else r) (terminations db),
               circuits :=
                 map (\<lambda>r. if circuit_pk r = pk then c\<lparr>termination_z_id := None\<rparr> else r)
                   (circuits db)\<rparr>))"
proof -
  have pk: "circuit_pk c = pk" and k: "term_pk tz = z"
    using c tz by (auto dest: find_key_Some)
  have s1: "termination_save (tz\<lparr>term_side := ''A''\<rparr>) db =
     (if violates_unique (tz\<lparr>term_side := ''A''\<rparr>) (terminations db) then (Inl IntegrityError, db)
      else (Inr (), db\<lparr>terminations :=
              map (\<lambda>r. if term_pk r = z then tz\<lparr>term_side := ''A''\<rparr> else r) (terminations db)\<rparr>))"
    by (rule termination_save_existing[OF tz]) (simp add: k)
  have s3: "\<And>T. circuit_save (c\<lparr>termination_z_id := None\<rparr>) (db\<lparr>terminations := T\<rparr>) =
      (Inr (), db\<lparr>terminations := T\<rparr>\<lparr>circuits := map (\<lambda>r. if circuit_pk r = pk
         then c\<lparr>termination_z_id := None\<rparr> else r) (circuits (db\<lparr>terminations := T\<rparr>))\<rparr>)"
    using c by (intro circuit_save_existing[where ?c0.0 = c]) (simp_all add: pk)
  show ?thesis
    using c a tz z s1 s3
    by (simp add: post_def and_then_def get_object_or_404_def filter_pk_first_def
        returns_def refresh_from_db_def pk)
qed

lemma post_none:
  assumes c: "find (\<lambda>r. circuit_pk r = pk) (circuits db) = Some c"
    and a: "filter_pk_first (termination_a_id c) db = None"
    and z: "filter_pk_first (termination_z_id c) db = None"
  shows "post pk True db = (Inl AttributeError, db)"
  using assms by (simp add: post_def and_then_def get_object_or_404_def raise_def)


subsection \<open>The swap exchanges the terminations\<close>

text \<open>
  C1. For a circuit whose termination_a and termination_z both exist, the first labelled
  \<open>A\<close> and the second \<open>Z\<close>, a POST with a valid confirmation form that
  succeeds leaves the former A termination with term_side \<open>Z\<close>, the former Z
  termination with term_side \<open>A\<close>, and the circuit with its two references
  exchanged.
\<close>

theorem swap_exchanges_terminations:
  assumes "find (\<lambda>r. circuit_pk r = pk) (circuits db) = Some c"
    and "termination_a_id c = Some a" and "termination_z_id c = Some z"
    and "find (\<lambda>r. term_pk r = a) (terminations db) = Some ta"
    and "find (\<lambda>r. term_pk r = z) (terminations db) = Some tz"
    and "term_side ta = ''A''" and "term_side tz = ''Z''"
    and "post pk True db = (Inr resp, db')"
  shows "find (\<lambda>r. term_pk r = a) (terminations db') = Some (ta\<lparr>term_side := ''Z''\<rparr>)
       \<and> find (\<lambda>r. term_pk r = z) (terminations db') = Some (tz\<lparr>term_side := ''A''\<rparr>)
       \<and> find (\<lambda>r. circuit_pk r = pk) (circuits db')
            = Some (c\<lparr>termination_a_id := Some z, termination_z_id := Some a\<rparr>)"
proof -
  have pk: "circuit_pk c = pk" and a: "term_pk ta = a" and z: "term_pk tz = z"
    using assms(1,4,5) by (auto dest: find_key_Some)
  have ne: "a \<noteq> z" using assms(4-7) by auto
  have db': "db' = swapped c ta tz db"
    using post_both_cases[OF assms(1-5)] assms(8) by auto
  have "find (\<lambda>r. term_pk r = a) (terminations db') = Some (ta\<lparr>term_side := ''Z''\<rparr>)"
    unfolding db' swapped_def using assms(4) a z
    by (simp add: find_map_keep[of term_pk])
  moreover have "find (\<lambda>r. term_pk r = z) (terminations db') = Some (tz\<lparr>term_side := ''A''\<rparr>)"
    unfolding db' swapped_def using assms(5) a z ne
    by (simp add: find_map_keep[of term_pk])
  moreover have "find (\<lambda>r. circuit_pk r = pk) (circuits db')
            = Some (c\<lparr>termination_a_id := Some z, termination_z_id := Some a\<rparr>)"
    unfolding db' swapped_def using assms(1) a z pk
    by (simp add: find_map_keep[of circuit_pk])
  ultimately show ?thesis by simp
qed



lemma post_example_db:
  "post 1 True example_db =
     (Inr (Redirect [(SUCCESS, ''Swapped terminations for circuit {}.'', 1)] 1), example_db_swapped)"
  by (simp add: example_db_def example_db_swapped_def post_def and_then_def
      get_object_or_404_def filter_pk_first_def atomic_def swap_block_def termination_save_def
      violates_unique_def refresh_from_db_def circuit_save_def returns_def)

theorem swap_exchanges_terminations_witness:
  "post 1 True example_db =
     (Inr (Redirect [(SUCCESS, ''Swapped terminations for circuit {}.'', 1)] 1), example_db_swapped)
   \<and> find (\<lambda>r. term_pk r = 10) (terminations example_db_swapped)
       = Some \<lparr>term_pk = 10, circuit_id = 1, term_side = ''Z'',
               site = Some 100, provider_network = None, description = ''left''\<rparr>
   \<and> find (\<lambda>r. term_pk r = 11) (terminations example_db_swapped)
       = Some \<lparr>term_pk = 11, circuit_id = 1, term_side = ''A'',
               site = None, provider_network = Some 5, description = ''right''\<rparr>
   \<and> find (\<lambda>r. circuit_pk r = 1) (circuits example_db_swapped)
       = Some \<lparr>circuit_pk = 1, termination_a_id = Some 11, termination_z_id = Some 10,
               cid = ''C-1'', provider = 7\<rparr>"
proof -
  have c: "find (\<lambda>r. circuit_pk r = 1) (circuits example_db)
      = Some \<lparr>circuit_pk = 1, termination_a_id = Some 10, termination_z_id = Some 11,
          cid = ''C-1'', provider = 7\<rparr>"
    by (simp add: example_db_def)
  have ta: "find (\<lambda>r. term_pk r = 10) (terminations example_db)
      = Some \<lparr>term_pk = 10, circuit_id = 1, term_side = ''A'',
          site = Some 100, provider_network = None, description = ''left''\<rparr>"
    by (simp add: example_db_def)
  have tz: "find (\<lambda>r. term_pk r = 11) (terminations example_db)
      = Some \<lparr>term_pk = 11, circuit_id = 1, term_side = ''Z'',
          site = None, provider_network = Some 5, description = ''right''\<rparr>"
    by (simp add: example_db_def)
  from swap_exchanges_terminations[OF c _ _ ta tz _ _ post_example_db]
  show ?thesis using post_example_db by simp
qed

subsection \<open>The three-step relabelling keeps the constraint\<close>

lemma violates_unique_iff:
  "violates_unique t rows \<longleftrightarrow>
     (\<exists>r \<in> set rows. term_pk r \<noteq> term_pk t \<and> circuit_id r = circuit_id t
         \<and> term_side r = term_side t)"
  by (simp add: violates_unique_def list_ex_iff)

lemma in_replaced:
  "r \<in> set (map (\<lambda>r. if term_pk r = k then t else r) rows) \<Longrightarrow>
   r = t \<or> (r \<in> set rows \<and> term_pk r \<noteq> k)"
  by auto

lemma unique_after_save:
  assumes u: "unique_term_side rows" and nv: "\<not> violates_unique t rows"
  shows "unique_term_side (map (\<lambda>r. if term_pk r = term_pk t then t else r) rows)"
  unfolding unique_term_side_def
proof (intro ballI impI)
  fix r s
  assume r: "r \<in> set (map (\<lambda>r. if term_pk r = term_pk t then t else r) rows)"
    and s: "s \<in> set (map (\<lambda>r. if term_pk r = term_pk t then t else r) rows)"
    and eq: "circuit_id r = circuit_id s \<and> term_side r = term_side s"
  from in_replaced[OF r] in_replaced[OF s] show "term_pk r = term_pk s"
  proof (elim disjE conjE)
    assume "r = t" "s = t" then show ?thesis by simp
  next
    assume "r = t" "s \<in> set rows" "term_pk s \<noteq> term_pk t"
    with nv eq show ?thesis unfolding violates_unique_iff by metis
  next
    assume "s = t" "r \<in> set rows" "term_pk r \<noteq> term_pk t"
    with nv eq show ?thesis unfolding violates_unique_iff by metis
  next
    assume "r \<in> set rows" "s \<in> set rows"
    with u eq show ?thesis unfolding unique_term_side_def by blast
  qed
qed


text \<open>
  C2. With both terminations present (the A termination and the Z termination of one
  circuit, in a table whose sides are \<open>A\<close> or \<open>Z\<close> and that satisfies the
  (circuit, term_side) constraint), the swap is three saves: termination_a with the
  placeholder \<open>_\<close>, then termination_z with \<open>A\<close>, then termination_a with
  \<open>Z\<close>. Each save is accepted, the table after each save satisfies the constraint,
  and the POST, which runs the block under one \<open>atomic\<close>, ends with the circuit's
  references exchanged on the database the third save left.
\<close>

theorem swap_three_step_relabeling:
  assumes c: "find (\<lambda>r. circuit_pk r = pk) (circuits db) = Some c"
    and aid: "termination_a_id c = Some a" and zid: "termination_z_id c = Some z"
    and ta: "find (\<lambda>r. term_pk r = a) (terminations db) = Some ta"
    and tz: "find (\<lambda>r. term_pk r = z) (terminations db) = Some tz"
    and same: "circuit_id ta = circuit_id tz"
    and sa: "term_side ta = ''A''" and sz: "term_side tz = ''Z''"
    and valid: "sides_valid (terminations db)"
    and uniq: "unique_term_side (terminations db)"
  shows "post pk True db =
           and_then (atomic (swap_block c ta tz))
             (\<lambda>_. returns (Redirect
                [(SUCCESS, ''Swapped terminations for circuit {}.'', pk)] pk)) db
       \<and> (\<exists>db1 db2 db3.
           termination_save (ta\<lparr>term_side := ''_''\<rparr>) db = (Inr (), db1)
         \<and> unique_term_side (terminations db1)
         \<and> termination_save (tz\<lparr>term_side := ''A''\<rparr>) db1 = (Inr (), db2)
         \<and> unique_term_side (terminations db2)
         \<and> termination_save (ta\<lparr>term_side := ''_''\<rparr>\<lparr>term_side := ''Z''\<rparr>) db2 = (Inr (), db3)
         \<and> unique_term_side (terminations db3)
         \<and> post pk True db =
             (Inr (Redirect [(SUCCESS, ''Swapped terminations for circuit {}.'', pk)] pk),
              db3\<lparr>circuits := map (\<lambda>r. if circuit_pk r = pk
                     then c\<lparr>termination_a_id := Some z, termination_z_id := Some a\<rparr> else r)
                   (circuits db3)\<rparr>))"
proof -
  have pk: "circuit_pk c = pk" and a: "term_pk ta = a" and z: "term_pk tz = z"
    and ta_in: "ta \<in> set (terminations db)" and tz_in: "tz \<in> set (terminations db)"
    using c ta tz by (auto dest: find_key_Some)
  have ne: "a \<noteq> z" using ta tz sa sz by auto
  define t1 where "t1 = ta\<lparr>term_side := ''_''\<rparr>"
  define t2 where "t2 = tz\<lparr>term_side := ''A''\<rparr>"
  define t3 where "t3 = t1\<lparr>term_side := ''Z''\<rparr>"
  define db1 where
    "db1 = db\<lparr>terminations := map (\<lambda>r. if term_pk r = a then t1 else r) (terminations db)\<rparr>"
  define db2 where
    "db2 = db1\<lparr>terminations := map (\<lambda>r. if term_pk r = z then t2 else r) (terminations db1)\<rparr>"
  define db3 where
    "db3 = db2\<lparr>terminations := map (\<lambda>r. if term_pk r = a then t3 else r) (terminations db2)\<rparr>"
  have k1: "term_pk t1 = a" and k2: "term_pk t2 = z" and k3: "term_pk t3 = a"
    by (simp_all add: t1_def t2_def t3_def a z)
  have T1: "terminations db1 = map (\<lambda>r. if term_pk r = a then t1 else r) (terminations db)"
    by (simp add: db1_def)
  have T2: "terminations db2 = map (\<lambda>r. if term_pk r = z then t2 else r) (terminations db1)"
    by (simp add: db2_def)
  have T3: "terminations db3 = map (\<lambda>r. if term_pk r = a then t3 else r) (terminations db2)"
    by (simp add: db3_def)
  have f1: "find (\<lambda>r. term_pk r = z) (terminations db1) = Some tz"
    unfolding T1 using tz ne by (simp add: find_replace[of term_pk t1 a, OF k1])
  have f2: "find (\<lambda>r. term_pk r = a) (terminations db2) = Some t1"
    unfolding T2 T1 using find_key_list_ex[OF ta] ne
    by (simp only: find_replace[of term_pk t2 z, OF k2] find_replace[of term_pk t1 a, OF k1])
       simp
  have nv1: "\<not> violates_unique t1 (terminations db)"
  proof
    assume "violates_unique t1 (terminations db)"
    then obtain r where "r \<in> set (terminations db)" "term_side r = ''_''"
      unfolding violates_unique_iff by (auto simp: t1_def)
    with valid show False by (auto simp: sides_valid_def)
  qed
  have u1: "unique_term_side (terminations db1)"
    unfolding T1 using unique_after_save[OF uniq nv1] by (simp add: k1)
  have nv2: "\<not> violates_unique t2 (terminations db1)"
  proof
    assume "violates_unique t2 (terminations db1)"
    then obtain r where r: "r \<in> set (terminations db1)" "term_pk r \<noteq> z"
       "circuit_id r = circuit_id tz" "term_side r = ''A''"
      unfolding violates_unique_iff by (auto simp: t2_def z)
    from in_replaced[OF r(1)[unfolded T1]] r(4)
    have "r \<in> set (terminations db)" "term_pk r \<noteq> a" by (auto simp: t1_def)
    moreover have "term_pk r = term_pk ta"
      using uniq ta_in \<open>r \<in> set (terminations db)\<close> r(3,4) same sa
      unfolding unique_term_side_def by metis
    ultimately show False using a by simp
  qed
  have u2: "unique_term_side (terminations db2)"
    unfolding T2 using unique_after_save[OF u1 nv2] by (simp add: k2)
  have nv3: "\<not> violates_unique t3 (terminations db2)"
  proof
    assume "violates_unique t3 (terminations db2)"
    then obtain r where r: "r \<in> set (terminations db2)" "term_pk r \<noteq> a"
       "circuit_id r = circuit_id ta" "term_side r = ''Z''"
      unfolding violates_unique_iff by (auto simp: t3_def t1_def a)
    from in_replaced[OF r(1)[unfolded T2]] r(4)
    have r1: "r \<in> set (terminations db1)" "term_pk r \<noteq> z" by (auto simp: t2_def)
    from in_replaced[OF r1(1)[unfolded T1]] r(2) k1
    have r0: "r \<in> set (terminations db)" by auto
    have "term_pk r = term_pk tz"
      using uniq tz_in r0 r(3,4) same sz unfolding unique_term_side_def by metis
    then show False using r1(2) z by simp
  qed
  have u3: "unique_term_side (terminations db3)"
    unfolding T3 using unique_after_save[OF u2 nv3] by (simp add: k3)
  have s1: "termination_save t1 db = (Inr (), db1)"
    unfolding db1_def using termination_save_existing[OF ta k1] nv1 by simp
  have s2: "termination_save t2 db1 = (Inr (), db2)"
    unfolding db2_def using termination_save_existing[OF f1 k2] nv2 by simp
  have s3: "termination_save t3 db2 = (Inr (), db3)"
    unfolding db3_def using termination_save_existing[OF f2 k3] nv3 by simp
  have c3: "find (\<lambda>r. circuit_pk r = circuit_pk c) (circuits db3) = Some c"
    using c by (simp add: db3_def db2_def db1_def pk)
  have s4: "refresh_from_db c db3 = (Inr c, db3)"
    by (simp add: refresh_from_db_def c3)
  have s5: "circuit_save (c\<lparr>termination_a_id := Some z, termination_z_id := Some a\<rparr>) db3 =
      (Inr (), db3\<lparr>circuits := map (\<lambda>r. if circuit_pk r = pk
         then c\<lparr>termination_a_id := Some z, termination_z_id := Some a\<rparr> else r) (circuits db3)\<rparr>)"
    using c3 by (intro circuit_save_existing[where ?c0.0 = c]) (simp_all add: pk)
  have blk: "swap_block c ta tz db =
     and_then (termination_save t1) (\<lambda>_.
     and_then (termination_save t2) (\<lambda>_.
     and_then (termination_save t3) (\<lambda>_.
     and_then (refresh_from_db c) (\<lambda>circuit.
     circuit_save (circuit\<lparr>termination_a_id := Some z, termination_z_id := Some a\<rparr>))))) db"
    by (simp add: swap_block_def Let_def t1_def t2_def t3_def a z)
  have "swap_block c ta tz db = (Inr (), db3\<lparr>circuits := map (\<lambda>r. if circuit_pk r = pk
         then c\<lparr>termination_a_id := Some z, termination_z_id := Some a\<rparr> else r) (circuits db3)\<rparr>)"
    unfolding blk by (simp add: and_then_def s1 s2 s3 s4 s5)
  then have p: "post pk True db =
             (Inr (Redirect [(SUCCESS, ''Swapped terminations for circuit {}.'', pk)] pk),
              db3\<lparr>circuits := map (\<lambda>r. if circuit_pk r = pk
                     then c\<lparr>termination_a_id := Some z, termination_z_id := Some a\<rparr> else r)
                   (circuits db3)\<rparr>)"
    unfolding post_both[OF c aid zid ta tz] by simp
  have tx: "post pk True db =
           and_then (atomic (swap_block c ta tz))
             (\<lambda>_. returns (Redirect
                [(SUCCESS, ''Swapped terminations for circuit {}.'', pk)] pk)) db"
    using c aid zid ta tz pk
    by (simp add: post_def and_then_def get_object_or_404_def filter_pk_first_def
        split: prod.splits sum.splits)
  have "\<exists>db1 db2 db3.
           termination_save (ta\<lparr>term_side := ''_''\<rparr>) db = (Inr (), db1)
         \<and> unique_term_side (terminations db1)
         \<and> termination_save (tz\<lparr>term_side := ''A''\<rparr>) db1 = (Inr (), db2)
         \<and> unique_term_side (terminations db2)
         \<and> termination_save (ta\<lparr>term_side := ''_''\<rparr>\<lparr>term_side := ''Z''\<rparr>) db2 = (Inr (), db3)
         \<and> unique_term_side (terminations db3)
         \<and> post pk True db =
             (Inr (Redirect [(SUCCESS, ''Swapped terminations for circuit {}.'', pk)] pk),
              db3\<lparr>circuits := map (\<lambda>r. if circuit_pk r = pk
                     then c\<lparr>termination_a_id := Some z, termination_z_id := Some a\<rparr> else r)
                   (circuits db3)\<rparr>)"
    using s1 u1 s2 u2 s3 u3 p unfolding t1_def t2_def t3_def by blast
  with tx show ?thesis by (rule conjI)
qed


theorem swap_three_step_relabeling_witness:
  "sides_valid (terminations example_db) \<and> unique_term_side (terminations example_db)
   \<and> (\<exists>db1 db2 db3.
         termination_save
           \<lparr>term_pk = 10, circuit_id = 1, term_side = ''_'',
            site = Some 100, provider_network = None, description = ''left''\<rparr>
           example_db = (Inr (), db1)
       \<and> unique_term_side (terminations db1)
       \<and> termination_save
           \<lparr>term_pk = 11, circuit_id = 1, term_side = ''A'',
            site = None, provider_network = Some 5, description = ''right''\<rparr>
           db1 = (Inr (), db2)
       \<and> unique_term_side (terminations db2)
       \<and> termination_save
           \<lparr>term_pk = 10, circuit_id = 1, term_side = ''Z'',
            site = Some 100, provider_network = None, description = ''left''\<rparr>
           db2 = (Inr (), db3)
       \<and> unique_term_side (terminations db3)
       \<and> post 1 True example_db =
           (Inr (Redirect [(SUCCESS, ''Swapped terminations for circuit {}.'', 1)] 1),
            db3\<lparr>circuits := map (\<lambda>r. if circuit_pk r = 1
                   then \<lparr>circuit_pk = 1, termination_a_id = Some 11, termination_z_id = Some 10,
                         cid = ''C-1'', provider = 7\<rparr> else r) (circuits db3)\<rparr>))"
proof -
  have c: "find (\<lambda>r. circuit_pk r = 1) (circuits example_db)
      = Some \<lparr>circuit_pk = 1, termination_a_id = Some 10, termination_z_id = Some 11,
          cid = ''C-1'', provider = 7\<rparr>"
    by (simp add: example_db_def)
  have ta: "find (\<lambda>r. term_pk r = 10) (terminations example_db)
      = Some \<lparr>term_pk = 10, circuit_id = 1, term_side = ''A'',
          site = Some 100, provider_network = None, description = ''left''\<rparr>"
    by (simp add: example_db_def)
  have tz: "find (\<lambda>r. term_pk r = 11) (terminations example_db)
      = Some \<lparr>term_pk = 11, circuit_id = 1, term_side = ''Z'',
          site = None, provider_network = Some 5, description = ''right''\<rparr>"
    by (simp add: example_db_def)
  have v: "sides_valid (terminations example_db)"
    by (simp add: example_db_def sides_valid_def)
  have u: "unique_term_side (terminations example_db)"
    by (simp add: example_db_def unique_term_side_def)
  from swap_three_step_relabeling[OF c _ _ ta tz _ _ _ v u, THEN conjunct2]
  show ?thesis using v u by (simp cong: if_cong)
qed

subsection \<open>The swap is atomic\<close>

text \<open>
  C3. With both terminations present, a confirmed POST either raises and leaves the
  database exactly as it was, or succeeds and leaves the database with all of the swap
  done: both terminations relabelled and the circuit's references exchanged. In the
  instance below the second save raises after the first has written the placeholder, and
  the transaction takes the placeholder back.
\<close>

theorem swap_atomic:
  assumes "find (\<lambda>r. circuit_pk r = pk) (circuits db) = Some c"
    and "termination_a_id c = Some a" and "termination_z_id c = Some z"
    and "find (\<lambda>r. term_pk r = a) (terminations db) = Some ta"
    and "find (\<lambda>r. term_pk r = z) (terminations db) = Some tz"
  shows "(\<exists>e. post pk True db = (Inl e, db))
       \<or> post pk True db =
           (Inr (Redirect [(SUCCESS, ''Swapped terminations for circuit {}.'', pk)] pk),
            swapped c ta tz db)"
  using post_both_cases[OF assms] by blast

theorem swap_atomic_witness:
  "swap_block
      \<lparr>circuit_pk = 1, termination_a_id = Some 10, termination_z_id = Some 11,
        cid = ''C-1'', provider = 7\<rparr>
      \<lparr>term_pk = 10, circuit_id = 1, term_side = ''A'',
        site = Some 100, provider_network = None, description = ''left''\<rparr>
      \<lparr>term_pk = 11, circuit_id = 5, term_side = ''Z'',
        site = None, provider_network = Some 5, description = ''of circuit 5''\<rparr>
      example_db_conflict
    = (Inl IntegrityError,
       example_db_conflict\<lparr>terminations :=
         [\<lparr>term_pk = 10, circuit_id = 1, term_side = ''_'',
           site = Some 100, provider_network = None, description = ''left''\<rparr>,
          \<lparr>term_pk = 11, circuit_id = 5, term_side = ''Z'',
           site = None, provider_network = Some 5, description = ''of circuit 5''\<rparr>,
          \<lparr>term_pk = 50, circuit_id = 5, term_side = ''A'',
           site = Some 101, provider_network = None, description = ''a of 5''\<rparr>]\<rparr>)
   \<and> post 1 True example_db_conflict = (Inl IntegrityError, example_db_conflict)
   \<and> post 1 True example_db =
       (Inr (Redirect [(SUCCESS, ''Swapped terminations for circuit {}.'', 1)] 1),
        example_db_swapped)"
proof -
  have blk: "swap_block
      \<lparr>circuit_pk = 1, termination_a_id = Some 10, termination_z_id = Some 11,
        cid = ''C-1'', provider = 7\<rparr>
      \<lparr>term_pk = 10, circuit_id = 1, term_side = ''A'',
        site = Some 100, provider_network = None, description = ''left''\<rparr>
      \<lparr>term_pk = 11, circuit_id = 5, term_side = ''Z'',
        site = None, provider_network = Some 5, description = ''of circuit 5''\<rparr>
      example_db_conflict
    = (Inl IntegrityError,
       example_db_conflict\<lparr>terminations :=
         [\<lparr>term_pk = 10, circuit_id = 1, term_side = ''_'',
           site = Some 100, provider_network = None, description = ''left''\<rparr>,
          \<lparr>term_pk = 11, circuit_id = 5, term_side = ''Z'',
           site = None, provider_network = Some 5, description = ''of circuit 5''\<rparr>,
          \<lparr>term_pk = 50, circuit_id = 5, term_side = ''A'',
           site = Some 101, provider_network = None, description = ''a of 5''\<rparr>]\<rparr>)"
    by (simp add: example_db_conflict_def swap_block_def and_then_def termination_save_def
        violates_unique_def)
  have c: "find (\<lambda>r. circuit_pk r = 1) (circuits example_db_conflict)
      = Some \<lparr>circuit_pk = 1, termination_a_id = Some 10, termination_z_id = Some 11,
          cid = ''C-1'', provider = 7\<rparr>"
    by (simp add: example_db_conflict_def)
  have ta: "find (\<lambda>r. term_pk r = 10) (terminations example_db_conflict)
      = Some \<lparr>term_pk = 10, circuit_id = 1, term_side = ''A'',
          site = Some 100, provider_network = None, description = ''left''\<rparr>"
    by (simp add: example_db_conflict_def)
  have tz: "find (\<lambda>r. term_pk r = 11) (terminations example_db_conflict)
      = Some \<lparr>term_pk = 11, circuit_id = 5, term_side = ''Z'',
          site = None, provider_network = Some 5, description = ''of circuit 5''\<rparr>"
    by (simp add: example_db_conflict_def)
  have p: "post 1 True example_db_conflict = (Inl IntegrityError, example_db_conflict)"
    by (simp add: example_db_conflict_def post_def and_then_def get_object_or_404_def
        filter_pk_first_def atomic_def swap_block_def termination_save_def violates_unique_def)
  from swap_atomic[OF c _ _ ta tz]
  have "(\<exists>e. post 1 True example_db_conflict = (Inl e, example_db_conflict))
       \<or> fst (post 1 True example_db_conflict)
           = Inr (Redirect [(SUCCESS, ''Swapped terminations for circuit {}.'', 1)] 1)"
    by auto
  with p show ?thesis using blk post_example_db by simp
qed

subsection \<open>The swap changes nothing else\<close>

lemma filter_pk_first_Some:
  "filter_pk_first k db = Some t \<Longrightarrow>
   \<exists>i. k = Some i \<and> find (\<lambda>r. term_pk r = i) (terminations db) = Some t"
  by (cases k) (auto simp: filter_pk_first_def)

lemma erase_replaced:
  assumes d: "distinct (map key rows)" and f: "find (\<lambda>r. key r = k) rows = Some t"
    and g: "g t' = g t"
  shows "map g (map (\<lambda>r. if key r = k then t' else r) rows) = map g rows"
proof -
  have "\<And>r. r \<in> set rows \<Longrightarrow> key r = k \<Longrightarrow> r = t"
    using find_distinct_all[OF d f] by blast
  then show ?thesis using g by (auto simp: map_eq_conv)
qed

lemma filter_replaced:
  assumes "\<not> P t'" and "\<And>r. key r = k \<Longrightarrow> \<not> P r"
  shows "filter P (map (\<lambda>r. if key r = k then t' else r) rows) = filter P rows"
  using assms by (induction rows) auto

lemma erase_swapped_terminations:
  assumes d: "distinct (map term_pk rows)"
    and ta: "find (\<lambda>r. term_pk r = a) rows = Some ta"
    and tz: "find (\<lambda>r. term_pk r = z) rows = Some tz"
  shows "erase_term_side
           (map (\<lambda>r. if term_pk r = a then ta\<lparr>term_side := ''Z''\<rparr>
                   else if term_pk r = z then tz\<lparr>term_side := ''A''\<rparr> else r) rows)
         = erase_term_side rows"
proof -
  have "\<And>r. r \<in> set rows \<Longrightarrow> term_pk r = a \<Longrightarrow> r = ta"
    and "\<And>r. r \<in> set rows \<Longrightarrow> term_pk r = z \<Longrightarrow> r = tz"
    using find_distinct_all[OF d ta] find_distinct_all[OF d tz] by blast+
  then show ?thesis by (auto simp: erase_term_side_def map_eq_conv)
qed

lemma filter_swapped_terminations:
  assumes "term_pk ta = a" and "term_pk tz = z"
  shows "filter (\<lambda>t. term_pk t \<noteq> a \<and> term_pk t \<noteq> z)
     (map (\<lambda>r. if term_pk r = a then ta\<lparr>term_side := s\<rparr>
              else if term_pk r = z then tz\<lparr>term_side := s'\<rparr> else r) rows)
   = filter (\<lambda>t. term_pk t \<noteq> a \<and> term_pk t \<noteq> z) rows"
  using assms by (induction rows) auto

lemma erase_references_replaced:
  assumes d: "distinct (map circuit_pk rows)"
    and c: "find (\<lambda>r. circuit_pk r = pk) rows = Some c"
  shows "erase_references
           (map (\<lambda>r. if circuit_pk r = pk
                    then c\<lparr>termination_a_id := x, termination_z_id := y\<rparr> else r) rows)
         = erase_references rows"
    and "erase_references
           (map (\<lambda>r. if circuit_pk r = pk then c\<lparr>termination_a_id := x\<rparr> else r) rows)
         = erase_references rows"
    and "erase_references
           (map (\<lambda>r. if circuit_pk r = pk then c\<lparr>termination_z_id := y\<rparr> else r) rows)
         = erase_references rows"
  unfolding erase_references_def
  by (rule erase_replaced[OF d c], simp)+

lemma filter_other_circuits:
  assumes "circuit_pk c' = pk"
  shows "filter (\<lambda>r. circuit_pk r \<noteq> pk)
           (map (\<lambda>r. if circuit_pk r = pk then c' else r) rows)
         = filter (\<lambda>r. circuit_pk r \<noteq> pk) rows"
  using assms by (induction rows) auto

text \<open>
  C7. In a database whose primary keys identify rows, a confirmed POST that succeeds (with
  two terminations or one) changes only the term_side column of the termination table and
  the two reference columns of the circuit table: with those columns erased the tables are
  the same before and after. The terminations the circuit does not refer to and the other
  circuits are unchanged in every column.
\<close>

theorem swap_frame:
  assumes keys: "primary_keys db"
    and c: "find (\<lambda>r. circuit_pk r = pk) (circuits db) = Some c"
    and ok: "post pk True db = (Inr resp, db')"
  shows "erase_term_side (terminations db') = erase_term_side (terminations db)
       \<and> erase_references (circuits db') = erase_references (circuits db)
       \<and> filter (\<lambda>t. Some (term_pk t) \<noteq> termination_a_id c
                      \<and> Some (term_pk t) \<noteq> termination_z_id c) (terminations db')
         = filter (\<lambda>t. Some (term_pk t) \<noteq> termination_a_id c
                      \<and> Some (term_pk t) \<noteq> termination_z_id c) (terminations db)
       \<and> filter (\<lambda>r. circuit_pk r \<noteq> pk) (circuits db')
         = filter (\<lambda>r. circuit_pk r \<noteq> pk) (circuits db)"
proof -
  have dc: "distinct (map circuit_pk (circuits db))"
    and dt: "distinct (map term_pk (terminations db))"
    using keys by (simp_all add: primary_keys_def)
  have pk: "circuit_pk c = pk" using c by (auto dest: find_key_Some)
  note er = erase_references_replaced[OF dc c]
  show ?thesis
  proof (cases "filter_pk_first (termination_a_id c) db")
    case aNone: None
    show ?thesis
    proof (cases "filter_pk_first (termination_z_id c) db")
      case None
      with post_none[OF c aNone] ok show ?thesis by simp
    next
      case (Some tz)
      then obtain z where z: "termination_z_id c = Some z"
        and tz: "find (\<lambda>r. term_pk r = z) (terminations db) = Some tz"
        by (auto dest: filter_pk_first_Some)
      have kz: "term_pk tz = z" using tz by (auto dest: find_key_Some)
      have db': "db' = db\<lparr>terminations :=
                 map (\<lambda>r. if term_pk r = z then tz\<lparr>term_side := ''A''\<rparr> else r) (terminations db),
               circuits :=
                 map (\<lambda>r. if circuit_pk r = pk then c\<lparr>termination_z_id := None\<rparr> else r)
                   (circuits db)\<rparr>"
        using post_z_only[OF c aNone z tz] ok by (simp split: if_splits)
      have 1: "erase_term_side (terminations db') = erase_term_side (terminations db)"
        unfolding db' erase_term_side_def by (simp add: erase_replaced[OF dt tz] del: map_map)
      have 2: "erase_references (circuits db') = erase_references (circuits db)"
        unfolding db' by (simp add: er)
      have 3: "filter (\<lambda>t. Some (term_pk t) \<noteq> termination_a_id c
                      \<and> Some (term_pk t) \<noteq> termination_z_id c) (terminations db')
         = filter (\<lambda>t. Some (term_pk t) \<noteq> termination_a_id c
                      \<and> Some (term_pk t) \<noteq> termination_z_id c) (terminations db)"
        unfolding db' by (simp add: filter_replaced z kz)
      have 4: "filter (\<lambda>r. circuit_pk r \<noteq> pk) (circuits db')
         = filter (\<lambda>r. circuit_pk r \<noteq> pk) (circuits db)"
        unfolding db' by (simp add: filter_other_circuits pk)
      from 1 2 3 4 show ?thesis by simp
    qed
  next
    case (Some ta)
    then obtain a where a: "termination_a_id c = Some a"
      and ta: "find (\<lambda>r. term_pk r = a) (terminations db) = Some ta"
      by (auto dest: filter_pk_first_Some)
    have ka: "term_pk ta = a" using ta by (auto dest: find_key_Some)
    show ?thesis
    proof (cases "filter_pk_first (termination_z_id c) db")
      case None
      have db': "db' = db\<lparr>terminations :=
                 map (\<lambda>r. if term_pk r = a then ta\<lparr>term_side := ''Z''\<rparr> else r) (terminations db),
               circuits :=
                 map (\<lambda>r. if circuit_pk r = pk then c\<lparr>termination_a_id := None\<rparr> else r)
                   (circuits db)\<rparr>"
        using post_a_only[OF c a ta None] ok by (simp split: if_splits)
      have 1: "erase_term_side (terminations db') = erase_term_side (terminations db)"
        unfolding db' erase_term_side_def by (simp add: erase_replaced[OF dt ta] del: map_map)
      have 2: "erase_references (circuits db') = erase_references (circuits db)"
        unfolding db' by (simp add: er)
      have 3: "filter (\<lambda>t. Some (term_pk t) \<noteq> termination_a_id c
                      \<and> Some (term_pk t) \<noteq> termination_z_id c) (terminations db')
         = filter (\<lambda>t. Some (term_pk t) \<noteq> termination_a_id c
                      \<and> Some (term_pk t) \<noteq> termination_z_id c) (terminations db)"
        unfolding db' by (simp add: filter_replaced a ka)
      have 4: "filter (\<lambda>r. circuit_pk r \<noteq> pk) (circuits db')
         = filter (\<lambda>r. circuit_pk r \<noteq> pk) (circuits db)"
        unfolding db' by (simp add: filter_other_circuits pk)
      from 1 2 3 4 show ?thesis by simp
    next
      case zSome: (Some tz)
      then obtain z where z: "termination_z_id c = Some z"
        and tz: "find (\<lambda>r. term_pk r = z) (terminations db) = Some tz"
        by (auto dest: filter_pk_first_Some)
      have kz: "term_pk tz = z" using tz by (auto dest: find_key_Some)
      have db': "db' = swapped c ta tz db"
        using post_both_cases[OF c a z ta tz] ok by auto
      have 1: "erase_term_side (terminations db') = erase_term_side (terminations db)"
        unfolding db' swapped_def using erase_swapped_terminations[OF dt ta tz]
        by (simp add: ka kz cong: if_cong)
      have 2: "erase_references (circuits db') = erase_references (circuits db)"
        unfolding db' swapped_def by (simp add: er pk)
      have 3: "filter (\<lambda>t. Some (term_pk t) \<noteq> termination_a_id c
                      \<and> Some (term_pk t) \<noteq> termination_z_id c) (terminations db')
         = filter (\<lambda>t. Some (term_pk t) \<noteq> termination_a_id c
                      \<and> Some (term_pk t) \<noteq> termination_z_id c) (terminations db)"
        unfolding db' swapped_def using filter_swapped_terminations[OF ka kz]
        by (simp add: a z ka kz cong: if_cong)
      have 4: "filter (\<lambda>r. circuit_pk r \<noteq> pk) (circuits db')
         = filter (\<lambda>r. circuit_pk r \<noteq> pk) (circuits db)"
        unfolding db' swapped_def by (simp add: filter_other_circuits pk)
      from 1 2 3 4 show ?thesis by simp
    qed
  qed
qed


theorem swap_frame_witness:
  "primary_keys example_db
   \<and> post 1 True example_db =
       (Inr (Redirect [(SUCCESS, ''Swapped terminations for circuit {}.'', 1)] 1),
        example_db_swapped)
   \<and> erase_term_side (terminations example_db_swapped)
       = erase_term_side (terminations example_db)
   \<and> erase_references (circuits example_db_swapped) = erase_references (circuits example_db)
   \<and> filter (\<lambda>t. term_pk t \<noteq> 10 \<and> term_pk t \<noteq> 11) (terminations example_db_swapped)
       = filter (\<lambda>t. term_pk t \<noteq> 10 \<and> term_pk t \<noteq> 11) (terminations example_db)
   \<and> filter (\<lambda>r. circuit_pk r \<noteq> 1) (circuits example_db_swapped)
       = filter (\<lambda>r. circuit_pk r \<noteq> 1) (circuits example_db)"
proof -
  have k: "primary_keys example_db"
    by (simp add: primary_keys_def example_db_def)
  have c: "find (\<lambda>r. circuit_pk r = 1) (circuits example_db)
      = Some \<lparr>circuit_pk = 1, termination_a_id = Some 10, termination_z_id = Some 11,
          cid = ''C-1'', provider = 7\<rparr>"
    by (simp add: example_db_def)
  from swap_frame[OF k c post_example_db]
  show ?thesis using k post_example_db by simp
qed

subsection \<open>One termination, and none\<close>

text \<open>
  C8. For a circuit with only its A termination, a confirmed POST that succeeds leaves
  that termination with term_side \<open>Z\<close> and the circuit's termination_a reference
  \<open>None\<close>; with only its Z termination, the termination gets \<open>A\<close> and
  termination_z becomes \<open>None\<close>. For a circuit with no termination, GET answers with
  a redirect to the circuit carrying an error message and leaves the database as it was.
\<close>

theorem swap_single_termination:
  assumes c: "find (\<lambda>r. circuit_pk r = pk) (circuits db) = Some c"
  shows "(termination_a_id c = Some a
          \<and> find (\<lambda>r. term_pk r = a) (terminations db) = Some ta
          \<and> filter_pk_first (termination_z_id c) db = None
          \<and> post pk True db = (Inr resp, db')
          \<longrightarrow> find (\<lambda>r. term_pk r = a) (terminations db') = Some (ta\<lparr>term_side := ''Z''\<rparr>)
            \<and> find (\<lambda>r. circuit_pk r = pk) (circuits db')
                = Some (c\<lparr>termination_a_id := None\<rparr>))
       \<and> (filter_pk_first (termination_a_id c) db = None
          \<and> termination_z_id c = Some z
          \<and> find (\<lambda>r. term_pk r = z) (terminations db) = Some tz
          \<and> post pk True db = (Inr resp, db')
          \<longrightarrow> find (\<lambda>r. term_pk r = z) (terminations db') = Some (tz\<lparr>term_side := ''A''\<rparr>)
            \<and> find (\<lambda>r. circuit_pk r = pk) (circuits db')
                = Some (c\<lparr>termination_z_id := None\<rparr>))
       \<and> (termination_a_id c = None \<and> termination_z_id c = None
          \<longrightarrow> get pk db =
               (Inr (Redirect
                  [(ERROR, ''No terminations have been defined for circuit {}.'', pk)] pk),
                db))"
proof (intro conjI impI)
  have pk: "circuit_pk c = pk" using c by (auto dest: find_key_Some)
  {
    assume h: "termination_a_id c = Some a
          \<and> find (\<lambda>r. term_pk r = a) (terminations db) = Some ta
          \<and> filter_pk_first (termination_z_id c) db = None
          \<and> post pk True db = (Inr resp, db')"
    then have ta: "find (\<lambda>r. term_pk r = a) (terminations db) = Some ta" by simp
    have ka: "term_pk ta = a" using ta by (auto dest: find_key_Some)
    have db': "db' = db\<lparr>terminations :=
                 map (\<lambda>r. if term_pk r = a then ta\<lparr>term_side := ''Z''\<rparr> else r) (terminations db),
               circuits :=
                 map (\<lambda>r. if circuit_pk r = pk then c\<lparr>termination_a_id := None\<rparr> else r)
                   (circuits db)\<rparr>"
      using post_a_only[OF c _ ta] h by (simp split: if_splits)
    show "find (\<lambda>r. term_pk r = a) (terminations db') = Some (ta\<lparr>term_side := ''Z''\<rparr>)"
      unfolding db' using ta ka by (simp add: find_map_keep[of term_pk])
    show "find (\<lambda>r. circuit_pk r = pk) (circuits db') = Some (c\<lparr>termination_a_id := None\<rparr>)"
      unfolding db' using c pk by (simp add: find_map_keep[of circuit_pk])
  }
  {
    assume h: "filter_pk_first (termination_a_id c) db = None
          \<and> termination_z_id c = Some z
          \<and> find (\<lambda>r. term_pk r = z) (terminations db) = Some tz
          \<and> post pk True db = (Inr resp, db')"
    then have tz: "find (\<lambda>r. term_pk r = z) (terminations db) = Some tz" by simp
    have kz: "term_pk tz = z" using tz by (auto dest: find_key_Some)
    have db': "db' = db\<lparr>terminations :=
                 map (\<lambda>r. if term_pk r = z then tz\<lparr>term_side := ''A''\<rparr> else r) (terminations db),
               circuits :=
                 map (\<lambda>r. if circuit_pk r = pk then c\<lparr>termination_z_id := None\<rparr> else r)
                   (circuits db)\<rparr>"
      using post_z_only[OF c _ _ tz] h by (simp split: if_splits)
    show "find (\<lambda>r. term_pk r = z) (terminations db') = Some (tz\<lparr>term_side := ''A''\<rparr>)"
      unfolding db' using tz kz by (simp add: find_map_keep[of term_pk])
    show "find (\<lambda>r. circuit_pk r = pk) (circuits db') = Some (c\<lparr>termination_z_id := None\<rparr>)"
      unfolding db' using c pk by (simp add: find_map_keep[of circuit_pk])
  }
  {
    assume "termination_a_id c = None \<and> termination_z_id c = None"
    then show "get pk db =
               (Inr (Redirect
                  [(ERROR, ''No terminations have been defined for circuit {}.'', pk)] pk),
                db)"
      using c pk by (simp add: get_def and_then_def get_object_or_404_def related_def returns_def)
  }
qed


theorem swap_single_termination_witness:
  "fst (post 2 True example_db)
     = Inr (Redirect [(SUCCESS, ''Swapped terminations for circuit {}.'', 2)] 2)
   \<and> find (\<lambda>r. term_pk r = 20) (terminations (snd (post 2 True example_db)))
       = Some \<lparr>term_pk = 20, circuit_id = 2, term_side = ''Z'',
               site = Some 101, provider_network = None, description = ''only a''\<rparr>
   \<and> find (\<lambda>r. circuit_pk r = 2) (circuits (snd (post 2 True example_db)))
       = Some \<lparr>circuit_pk = 2, termination_a_id = None, termination_z_id = None,
               cid = ''C-2'', provider = 7\<rparr>
   \<and> fst (post 3 True example_db)
     = Inr (Redirect [(SUCCESS, ''Swapped terminations for circuit {}.'', 3)] 3)
   \<and> find (\<lambda>r. term_pk r = 31) (terminations (snd (post 3 True example_db)))
       = Some \<lparr>term_pk = 31, circuit_id = 3, term_side = ''A'',
               site = Some 102, provider_network = None, description = ''only z''\<rparr>
   \<and> find (\<lambda>r. circuit_pk r = 3) (circuits (snd (post 3 True example_db)))
       = Some \<lparr>circuit_pk = 3, termination_a_id = None, termination_z_id = None,
               cid = ''C-3'', provider = 8\<rparr>
   \<and> get 4 example_db =
       (Inr (Redirect [(ERROR, ''No terminations have been defined for circuit {}.'', 4)] 4),
        example_db)"
proof -
  have c2: "find (\<lambda>r. circuit_pk r = 2) (circuits example_db)
      = Some \<lparr>circuit_pk = 2, termination_a_id = Some 20, termination_z_id = None,
          cid = ''C-2'', provider = 7\<rparr>"
    and c3: "find (\<lambda>r. circuit_pk r = 3) (circuits example_db)
      = Some \<lparr>circuit_pk = 3, termination_a_id = None, termination_z_id = Some 31,
          cid = ''C-3'', provider = 8\<rparr>"
    and c4: "find (\<lambda>r. circuit_pk r = 4) (circuits example_db)
      = Some \<lparr>circuit_pk = 4, termination_a_id = None, termination_z_id = None,
          cid = ''C-4'', provider = 8\<rparr>"
    by (simp_all add: example_db_def)
  have t20: "find (\<lambda>r. term_pk r = 20) (terminations example_db)
      = Some \<lparr>term_pk = 20, circuit_id = 2, term_side = ''A'',
          site = Some 101, provider_network = None, description = ''only a''\<rparr>"
    and t31: "find (\<lambda>r. term_pk r = 31) (terminations example_db)
      = Some \<lparr>term_pk = 31, circuit_id = 3, term_side = ''Z'',
          site = Some 102, provider_network = None, description = ''only z''\<rparr>"
    by (simp_all add: example_db_def)
  have f2: "fst (post 2 True example_db)
      = Inr (Redirect [(SUCCESS, ''Swapped terminations for circuit {}.'', 2)] 2)"
    and f3: "fst (post 3 True example_db)
      = Inr (Redirect [(SUCCESS, ''Swapped terminations for circuit {}.'', 3)] 3)"
    by (simp_all add: example_db_def post_def and_then_def get_object_or_404_def
        filter_pk_first_def termination_save_def violates_unique_def refresh_from_db_def
        circuit_save_def returns_def)
  have p2: "post 2 True example_db =
      (Inr (Redirect [(SUCCESS, ''Swapped terminations for circuit {}.'', 2)] 2),
       snd (post 2 True example_db))"
    using f2 by (metis prod.collapse)
  have p3: "post 3 True example_db =
      (Inr (Redirect [(SUCCESS, ''Swapped terminations for circuit {}.'', 3)] 3),
       snd (post 3 True example_db))"
    using f3 by (metis prod.collapse)
  have a: "find (\<lambda>r. term_pk r = 20) (terminations (snd (post 2 True example_db)))
       = Some (\<lparr>term_pk = 20, circuit_id = 2, term_side = ''A'',
               site = Some 101, provider_network = None, description = ''only a''\<rparr>
               \<lparr>term_side := ''Z''\<rparr>)
     \<and> find (\<lambda>r. circuit_pk r = 2) (circuits (snd (post 2 True example_db)))
       = Some (\<lparr>circuit_pk = 2, termination_a_id = Some 20, termination_z_id = None,
               cid = ''C-2'', provider = 7\<rparr>\<lparr>termination_a_id := None\<rparr>)"
    by (rule swap_single_termination[OF c2, THEN conjunct1, THEN mp])
       (intro conjI, simp, rule t20, simp add: filter_pk_first_def, rule p2)
  have z: "find (\<lambda>r. term_pk r = 31) (terminations (snd (post 3 True example_db)))
       = Some (\<lparr>term_pk = 31, circuit_id = 3, term_side = ''Z'',
               site = Some 102, provider_network = None, description = ''only z''\<rparr>
               \<lparr>term_side := ''A''\<rparr>)
     \<and> find (\<lambda>r. circuit_pk r = 3) (circuits (snd (post 3 True example_db)))
       = Some (\<lparr>circuit_pk = 3, termination_a_id = None, termination_z_id = Some 31,
               cid = ''C-3'', provider = 8\<rparr>\<lparr>termination_z_id := None\<rparr>)"
    by (rule swap_single_termination[OF c3, THEN conjunct2, THEN conjunct1, THEN mp])
       (intro conjI, simp add: filter_pk_first_def, simp, rule t31, rule p3)
  have g: "get 4 example_db =
       (Inr (Redirect [(ERROR, ''No terminations have been defined for circuit {}.'', 4)] 4),
        example_db)"
    by (rule swap_single_termination[OF c4, THEN conjunct2, THEN conjunct2, THEN mp]) simp
  from a z g f2 f3 show ?thesis by simp
qed


subsection \<open>Swapping twice\<close>

text \<open>
  C9. For a circuit with both terminations present (its A termination and its Z
  termination, in a database whose primary keys identify rows), two confirmed POSTs that
  both succeed leave the database exactly as it was before the first.
\<close>

theorem swap_involution:
  assumes keys: "primary_keys db"
    and c: "find (\<lambda>r. circuit_pk r = pk) (circuits db) = Some c"
    and aid: "termination_a_id c = Some a" and zid: "termination_z_id c = Some z"
    and ta: "find (\<lambda>r. term_pk r = a) (terminations db) = Some ta"
    and tz: "find (\<lambda>r. term_pk r = z) (terminations db) = Some tz"
    and sa: "term_side ta = ''A''" and sz: "term_side tz = ''Z''"
    and first: "post pk True db = (Inr resp1, db1)"
    and second: "post pk True db1 = (Inr resp2, db2)"
  shows "db2 = db"
proof -
  have dc: "distinct (map circuit_pk (circuits db))"
    and dt: "distinct (map term_pk (terminations db))"
    using keys by (simp_all add: primary_keys_def)
  have pk: "circuit_pk c = pk" and ka: "term_pk ta = a" and kz: "term_pk tz = z"
    using c ta tz by (auto dest: find_key_Some)
  have ne: "a \<noteq> z" using ta tz sa sz by auto
  have only_c: "\<And>r. r \<in> set (circuits db) \<Longrightarrow> circuit_pk r = pk \<Longrightarrow> r = c"
    using find_distinct_all[OF dc c] by blast
  have only_a: "\<And>r. r \<in> set (terminations db) \<Longrightarrow> term_pk r = a \<Longrightarrow> r = ta"
    using find_distinct_all[OF dt ta] by blast
  have only_z: "\<And>r. r \<in> set (terminations db) \<Longrightarrow> term_pk r = z \<Longrightarrow> r = tz"
    using find_distinct_all[OF dt tz] by blast
  define c1 where "c1 = c\<lparr>termination_a_id := Some z, termination_z_id := Some a\<rparr>"
  define ta1 where "ta1 = ta\<lparr>term_side := ''Z''\<rparr>"
  define tz1 where "tz1 = tz\<lparr>term_side := ''A''\<rparr>"
  have db1: "db1 = swapped c ta tz db"
    using post_both_cases[OF c aid zid ta tz] first by auto
  have T1: "terminations db1 =
      map (\<lambda>r. if term_pk r = a then ta1 else if term_pk r = z then tz1 else r) (terminations db)"
    and C1: "circuits db1 = map (\<lambda>r. if circuit_pk r = pk then c1 else r) (circuits db)"
    by (simp_all add: db1 swapped_def ka kz pk c1_def ta1_def tz1_def)
  have fc: "find (\<lambda>r. circuit_pk r = pk) (circuits db1) = Some c1"
    unfolding C1 using c pk by (simp add: find_map_keep[of circuit_pk] c1_def)
  have fa: "find (\<lambda>r. term_pk r = a) (terminations db1) = Some ta1"
    unfolding T1 using ta ka kz by (simp add: find_map_keep[of term_pk] ta1_def tz1_def)
  have fz: "find (\<lambda>r. term_pk r = z) (terminations db1) = Some tz1"
    unfolding T1 using tz ka kz ne by (simp add: find_map_keep[of term_pk] ta1_def tz1_def)
  have db2: "db2 = swapped c1 tz1 ta1 db1"
    using post_both_cases[OF fc _ _ fz fa] second by (auto simp: c1_def)
  have back_a: "ta1\<lparr>term_side := ''A''\<rparr> = ta" and back_z: "tz1\<lparr>term_side := ''Z''\<rparr> = tz"
    and back_c: "c1\<lparr>termination_a_id := Some a, termination_z_id := Some z\<rparr> = c"
    using sa sz aid zid by (simp_all add: ta1_def tz1_def c1_def)
  have k1: "term_pk ta1 = a" "term_pk tz1 = z" "circuit_pk c1 = pk"
    by (simp_all add: ta1_def tz1_def c1_def ka kz pk)
  have "terminations db2 =
      map (\<lambda>r. if term_pk r = z then tz else if term_pk r = a then ta else r) (terminations db1)"
    unfolding db2 swapped_def by (simp add: k1 back_a back_z cong: if_cong)
  also have "\<dots> = terminations db"
    unfolding T1 map_map
    by (rule map_idI) (auto simp: k1 ne dest: only_a only_z)
  finally have T2: "terminations db2 = terminations db" .
  have "circuits db2 = map (\<lambda>r. if circuit_pk r = pk then c else r) (circuits db1)"
    unfolding db2 swapped_def by (simp add: k1 back_c cong: if_cong)
  also have "\<dots> = circuits db"
    unfolding C1 map_map
    by (rule map_idI) (auto simp: k1 dest: only_c)
  finally have C2: "circuits db2 = circuits db" .
  have "database.more db2 = database.more db"
    by (simp add: db2 db1 swapped_def)
  with T2 C2 show ?thesis by simp
qed


theorem swap_involution_witness:
  "primary_keys example_db
   \<and> post 1 True example_db =
       (Inr (Redirect [(SUCCESS, ''Swapped terminations for circuit {}.'', 1)] 1),
        example_db_swapped)
   \<and> post 1 True example_db_swapped =
       (Inr (Redirect [(SUCCESS, ''Swapped terminations for circuit {}.'', 1)] 1), example_db)"
proof -
  have k: "primary_keys example_db"
    by (simp add: primary_keys_def example_db_def)
  have c: "find (\<lambda>r. circuit_pk r = 1) (circuits example_db)
      = Some \<lparr>circuit_pk = 1, termination_a_id = Some 10, termination_z_id = Some 11,
          cid = ''C-1'', provider = 7\<rparr>"
    by (simp add: example_db_def)
  have ta: "find (\<lambda>r. term_pk r = 10) (terminations example_db)
      = Some \<lparr>term_pk = 10, circuit_id = 1, term_side = ''A'',
          site = Some 100, provider_network = None, description = ''left''\<rparr>"
    by (simp add: example_db_def)
  have tz: "find (\<lambda>r. term_pk r = 11) (terminations example_db)
      = Some \<lparr>term_pk = 11, circuit_id = 1, term_side = ''Z'',
          site = None, provider_network = Some 5, description = ''right''\<rparr>"
    by (simp add: example_db_def)
  have second: "post 1 True example_db_swapped =
       (Inr (Redirect [(SUCCESS, ''Swapped terminations for circuit {}.'', 1)] 1),
        snd (post 1 True example_db_swapped))"
    by (simp add: example_db_swapped_def post_def and_then_def
      get_object_or_404_def filter_pk_first_def atomic_def swap_block_def termination_save_def
      violates_unique_def refresh_from_db_def circuit_save_def returns_def)
  from swap_involution[OF k c _ _ ta tz _ _ post_example_db second]
  have "snd (post 1 True example_db_swapped) = example_db" by simp
  with second k post_example_db show ?thesis by simp
qed

section \<open>Properties of the bulk import and of the serializers\<close>

subsection \<open>CircuitBulkImportView.prep_related_object_data\<close>

text \<open>
  C6. The returned data maps \<open>circuit\<close> to the parent circuit and agrees with the
  given data on every other key.
\<close>

theorem prep_related_object_data_sets_circuit:
  "prep_related_object_data parent data ''circuit'' = Some parent
   \<and> (\<forall>k. k \<noteq> ''circuit'' \<longrightarrow> prep_related_object_data parent data k = data k)"
  by (simp add: prep_related_object_data_def)

theorem prep_related_object_data_sets_circuit_witness:
  "prep_related_object_data
      (Inl \<lparr>circuit_pk = 1, termination_a_id = None, termination_z_id = None\<rparr>)
      [''term_side'' \<mapsto> Inr ''A'', ''circuit'' \<mapsto> Inr ''stale'']
    = [''term_side'' \<mapsto> Inr ''A'',
       ''circuit'' \<mapsto> Inl \<lparr>circuit_pk = 1, termination_a_id = None, termination_z_id = None\<rparr>]"
proof
  fix k :: string
  show "prep_related_object_data
      (Inl \<lparr>circuit_pk = 1, termination_a_id = None, termination_z_id = None\<rparr>)
      [''term_side'' \<mapsto> Inr ''A'', ''circuit'' \<mapsto> Inr ''stale''] k
    = [''term_side'' \<mapsto> Inr ''A'',
       ''circuit'' \<mapsto> Inl \<lparr>circuit_pk = 1, termination_a_id = None, termination_z_id = None\<rparr>] k"
    using prep_related_object_data_sets_circuit
      [of "Inl \<lparr>circuit_pk = 1, termination_a_id = None, termination_z_id = None\<rparr>"
          "[''term_side'' \<mapsto> Inr ''A'', ''circuit'' \<mapsto> Inr ''stale'']"]
    by (cases "k = ''circuit''") simp_all
qed

subsection \<open>TokenSerializer.validate\<close>

text \<open>
  C4. With a request in the context, \<open>TokenSerializer.validate\<close> raises
  \<open>PermissionDenied\<close> when the data's user is set (a true value), differs from the
  requesting user, and the requesting user lacks \<open>users.grant_token\<close>; in every other
  case its result is the parent validator's on the same data. So, unless the parent
  validator itself raises \<open>PermissionDenied\<close>, it raises \<open>PermissionDenied\<close>
  exactly in that case.
\<close>

theorem TokenSerializer_validate_permission:
  "TokenSerializer_validate has_perm super_validate (Some request) data =
     (if (\<exists>token_user. data ''user'' = Some token_user \<and> truthy token_user
            \<and> differs_from token_user (request_user request))
         \<and> \<not> has_perm (request_user request) ''users.grant_token''
      then Inl (PermissionDenied
             ''This user does not have permission to create tokens for other users.'')
      else super_validate data)
   \<and> ((\<forall>msg. super_validate data \<noteq> Inl (PermissionDenied msg)) \<longrightarrow>
        ((\<exists>msg. TokenSerializer_validate has_perm super_validate (Some request) data
                 = Inl (PermissionDenied msg))
         \<longleftrightarrow> (\<exists>token_user. data ''user'' = Some token_user \<and> truthy token_user
                \<and> differs_from token_user (request_user request))
             \<and> \<not> has_perm (request_user request) ''users.grant_token''))"
proof -
  have eq: "TokenSerializer_validate has_perm super_validate (Some request) data =
     (if (\<exists>token_user. data ''user'' = Some token_user \<and> truthy token_user
            \<and> differs_from token_user (request_user request))
         \<and> \<not> has_perm (request_user request) ''users.grant_token''
      then Inl (PermissionDenied
             ''This user does not have permission to create tokens for other users.'')
      else super_validate data)"
    by (auto simp: TokenSerializer_validate_def split: option.splits)
  show ?thesis
    unfolding eq by simp
qed

theorem TokenSerializer_validate_permission_witness:
  "TokenSerializer_validate example_has_perm parent_accepts (Some \<lparr>request_user = bob\<rparr>)
      [''user'' \<mapsto> PyUser alice]
     = Inl (PermissionDenied
             ''This user does not have permission to create tokens for other users.'')
   \<and> TokenSerializer_validate example_has_perm parent_accepts (Some \<lparr>request_user = bob\<rparr>)
      [''user'' \<mapsto> PyUser bob]
     = Inr [''user'' \<mapsto> PyUser bob]
   \<and> TokenSerializer_validate example_has_perm parent_accepts (Some \<lparr>request_user = alice\<rparr>)
      [''user'' \<mapsto> PyUser bob]
     = Inr [''user'' \<mapsto> PyUser bob]
   \<and> TokenSerializer_validate example_has_perm parent_accepts (Some \<lparr>request_user = bob\<rparr>)
      [''description'' \<mapsto> PyStr ''no user'']
     = Inr [''description'' \<mapsto> PyStr ''no user'']"
proof -
  note t = TokenSerializer_validate_permission[of example_has_perm parent_accepts, THEN conjunct1]
  have "\<forall>msg. parent_accepts [''user'' \<mapsto> PyUser alice] \<noteq> Inl (PermissionDenied msg)"
    by (simp add: parent_accepts_def)
  with TokenSerializer_validate_permission[where super_validate = parent_accepts
      and data = "[''user'' \<mapsto> PyUser alice]" and has_perm = example_has_perm
      and request = "\<lparr>request_user = bob\<rparr>", THEN conjunct2]
  have "\<exists>msg. TokenSerializer_validate example_has_perm parent_accepts
      (Some \<lparr>request_user = bob\<rparr>) [''user'' \<mapsto> PyUser alice] = Inl (PermissionDenied msg)"
    by (simp add: alice_def bob_def example_has_perm_def)
  then show ?thesis
    by (simp add: t alice_def bob_def example_has_perm_def parent_accepts_def)
qed

subsection \<open>TokenProvisionSerializer.validate\<close>

text \<open>
  C5. On data that holds a username and a password,
  \<open>TokenProvisionSerializer.validate\<close> raises \<open>AuthenticationFailed\<close> if and only
  if authenticating them yields no user; when it yields a user, the result is the data
  without \<open>username\<close> and \<open>password\<close> and with \<open>user\<close> set to that user.
\<close>

theorem TokenProvisionSerializer_validate_authenticates:
  assumes "data ''username'' = Some username" and "data ''password'' = Some password"
  shows "((\<exists>msg. TokenProvisionSerializer_validate authenticate request data
              = Inl (AuthenticationFailed msg))
          \<longleftrightarrow> authenticate request username password = None)
       \<and> (\<forall>user. authenticate request username password = Some user \<longrightarrow>
            TokenProvisionSerializer_validate authenticate request data
              = Inr (data(''username'' := None, ''password'' := None, ''user'' \<mapsto> PyUser user)))"
  using assms
  by (auto simp: TokenProvisionSerializer_validate_def pop_def split: option.splits)

theorem TokenProvisionSerializer_validate_authenticates_witness:
  "TokenProvisionSerializer_validate example_authenticate None
      [''username'' \<mapsto> PyStr ''alice'', ''password'' \<mapsto> PyStr ''secret'',
       ''description'' \<mapsto> PyStr ''cli'']
     = Inr [''description'' \<mapsto> PyStr ''cli'', ''user'' \<mapsto> PyUser alice]
   \<and> TokenProvisionSerializer_validate example_authenticate None
      [''username'' \<mapsto> PyStr ''alice'', ''password'' \<mapsto> PyStr ''wrong'']
     = Inl (AuthenticationFailed ''Invalid username/password'')"
proof -
  have ok: "example_authenticate None (PyStr ''alice'') (PyStr ''secret'') = Some alice"
    and no: "example_authenticate None (PyStr ''alice'') (PyStr ''wrong'') = None"
    by (simp_all add: example_authenticate_def)
  have 1: "TokenProvisionSerializer_validate example_authenticate None
      [''username'' \<mapsto> PyStr ''alice'', ''password'' \<mapsto> PyStr ''secret'',
       ''description'' \<mapsto> PyStr ''cli'']
     = Inr ([''username'' \<mapsto> PyStr ''alice'', ''password'' \<mapsto> PyStr ''secret'',
       ''description'' \<mapsto> PyStr ''cli'']
           (''username'' := None, ''password'' := None, ''user'' \<mapsto> PyUser alice))"
    by (rule TokenProvisionSerializer_validate_authenticates
          [where username = "PyStr ''alice''" and password = "PyStr ''secret''",
           THEN conjunct2, rule_format])
       (simp_all add: ok)
  have "\<exists>msg. TokenProvisionSerializer_validate example_authenticate None
      [''username'' \<mapsto> PyStr ''alice'', ''password'' \<mapsto> PyStr ''wrong'']
     = Inl (AuthenticationFailed msg)"
    by (rule TokenProvisionSerializer_validate_authenticates
          [where username = "PyStr ''alice''" and password = "PyStr ''wrong''",
           THEN conjunct1, THEN iffD2])
       (simp_all add: no)
  then have 2: "TokenProvisionSerializer_validate example_authenticate None
      [''username'' \<mapsto> PyStr ''alice'', ''password'' \<mapsto> PyStr ''wrong'']
     = Inl (AuthenticationFailed ''Invalid username/password'')"
    by (auto simp: TokenProvisionSerializer_validate_def pop_def split: option.splits)
  have m: "[''username'' \<mapsto> PyStr ''alice'', ''password'' \<mapsto> PyStr ''secret'',
       ''description'' \<mapsto> PyStr ''cli'']
           (''username'' := None, ''password'' := None, ''user'' \<mapsto> PyUser alice)
      = [''description'' \<mapsto> PyStr ''cli'', ''user'' \<mapsto> PyUser alice]"
    by (rule ext) simp
  from 1 2 m show ?thesis by simp
qed


subsection \<open>The key of a token\<close>

lemma run_validation_key_field:
  "run_validation key_field v = Inr value \<Longrightarrow>
   \<exists>k. value = PyStr k \<and> (k = [] \<or> length k = 40)"
  by (cases v) (auto simp: run_validation_def key_field_def Let_def split: if_splits)

text \<open>
  C10, as the code has it. Whatever \<open>Token.generate_key\<close> returns and whatever the
  other fields do, data that \<open>TokenSerializer.to_internal_value\<close> accepts carries a
  key that is either the empty string or exactly 40 characters long (after trimming);
  when the input has no \<open>key\<close> entry, the generated key is put in and validated like
  a supplied one.
\<close>

theorem TokenSerializer_key_blank_or_40:
  "(data ''key'' = None \<longrightarrow>
      TokenSerializer_to_internal_value generate_key other_fields data
        = Serializer_to_internal_value other_fields (data(''key'' \<mapsto> JStr generate_key)))
   \<and> (\<forall>ret. TokenSerializer_to_internal_value generate_key other_fields data = Inr ret \<longrightarrow>
         (\<exists>k. ret ''key'' = Some (PyStr k) \<and> (k = [] \<or> length k = 40)))"
proof (intro conjI impI allI)
  assume "data ''key'' = None"
  then show "TokenSerializer_to_internal_value generate_key other_fields data
        = Serializer_to_internal_value other_fields (data(''key'' \<mapsto> JStr generate_key))"
    by (simp add: TokenSerializer_to_internal_value_def)
next
  fix ret
  assume ok: "TokenSerializer_to_internal_value generate_key other_fields data = Inr ret"
  define d where "d = (if data ''key'' = None then data(''key'' \<mapsto> JStr generate_key) else data)"
  have present: "d ''key'' \<noteq> None" by (simp add: d_def)
  then obtain v where v: "d ''key'' = Some v" by auto
  have "Serializer_to_internal_value other_fields d = Inr ret"
    using ok by (simp add: TokenSerializer_to_internal_value_def d_def Let_def)
  then obtain w where "run_validation key_field v = Inr w" "ret ''key'' = Some w"
    using v
    by (auto simp: Serializer_to_internal_value_def split: prod.splits sum.splits if_splits)
  with run_validation_key_field show "\<exists>k. ret ''key'' = Some (PyStr k) \<and> (k = [] \<or> length k = 40)"
    by blast
qed

lemma strip_example_key: "strip example_key = example_key"
  by (simp add: strip_def example_key_def is_space_def)

text \<open>
  The key field is declared with \<open>allow_blank=True\<close>: a supplied key \<open>''\<close> is
  accepted, and its length is not 40.
\<close>

theorem TokenSerializer_key_exactly_40_counterexample:
  "TokenSerializer_to_internal_value example_key no_other_fields [''key'' \<mapsto> JStr []]
     = Inr [''key'' \<mapsto> PyStr []]
   \<and> length ([] :: string) \<noteq> 40"
  by (simp add: TokenSerializer_to_internal_value_def Serializer_to_internal_value_def
      no_other_fields_def run_validation_def key_field_def)

theorem TokenSerializer_key_blank_or_40_witness:
  "TokenSerializer_to_internal_value example_key no_other_fields Map.empty
     = Inr [''key'' \<mapsto> PyStr example_key]
   \<and> length example_key = 40
   \<and> TokenSerializer_to_internal_value example_key no_other_fields [''key'' \<mapsto> JStr ''  '']
     = Inr [''key'' \<mapsto> PyStr []]"
proof -
  have len: "length example_key = 40" by (simp add: example_key_def)
  have v: "run_validation key_field (JStr example_key) = Inr (PyStr example_key)"
    using len by (simp add: run_validation_def key_field_def strip_example_key Let_def)
  have s: "Serializer_to_internal_value no_other_fields [''key'' \<mapsto> JStr example_key]
     = Inr [''key'' \<mapsto> PyStr example_key]"
    by (simp add: Serializer_to_internal_value_def no_other_fields_def v)
  have b: "TokenSerializer_to_internal_value example_key no_other_fields [''key'' \<mapsto> JStr ''  '']
     = Inr [''key'' \<mapsto> PyStr []]"
    by (simp add: TokenSerializer_to_internal_value_def Serializer_to_internal_value_def
      no_other_fields_def run_validation_def key_field_def strip_def is_space_def)
  from TokenSerializer_key_blank_or_40[of Map.empty example_key no_other_fields, THEN conjunct1]
  have "TokenSerializer_to_internal_value example_key no_other_fields Map.empty
     = Inr [''key'' \<mapsto> PyStr example_key]"
    using s by simp
  moreover note TokenSerializer_key_blank_or_40
      [of "[''key'' \<mapsto> JStr ''  '']" example_key no_other_fields,
       THEN conjunct2, rule_format, OF b]
  ultimately show ?thesis using len b by simp
qed

end
